theory Spec2Isabelle
  imports Complex_Main
begin

section \<open>JavaScript numbers\<close>

text \<open>
  Every numeric field of the tracker is a JavaScript Number, an IEEE 754 binary64 value.
  A finite double is represented by the rational it denotes, beside the two infinities and
  NaN. The arithmetic operators compute the exact rational result and round it to the
  nearest double, ties to even, as the language prescribes.

  There is one zero, the positive one; negative zero is left out. Under \<^verbatim>\<open>+\<close>,
  \<^verbatim>\<open>===\<close>, \<^verbatim>\<open>>\<close> and \<^verbatim>\<open>JSON.stringify\<close> the Number \<open>-0\<close> behaves as \<open>0\<close> does, and
  where the code computes \<open>-0\<close> (a negative quotient too small for a double, or the print
  \<^verbatim>\<open>-0.00\<close> read back) the result here is \<open>0\<close>. The two zeros differ as divisors:
  the quotient by \<open>-0\<close> is the infinity of the opposite sign. \<^verbatim>\<open>app.js\<close> divides by
  sums it has found greater than zero, by fuel amounts it has found greater than zero,
  and by the fuel amount given to \<^verbatim>\<open>recordFuelConsumption\<close>; for that argument
  \<open>Fin 0\<close> is the positive zero, and a call with the fuel amount \<open>-0\<close> is outside the
  model.
\<close>

datatype jsnum = Fin rat | PInf | NInf | NaN

definition pow2 :: "int \<Rightarrow> rat" where
  "pow2 e = (if 0 \<le> e then 2 ^ nat e else 1 / 2 ^ nat (- e))"

text \<open>Halve a significand until it is below \<open>2^53\<close>, counting the exponent up.\<close>

function norm_down :: "rat \<Rightarrow> int \<Rightarrow> rat \<times> int" where
  "norm_down a e = (if 2 ^ 53 \<le> a then norm_down (a / 2) (e + 1) else (a, e))"
  by pat_completeness auto
termination
proof (relation "measure (\<lambda>(a, e). nat \<lfloor>a\<rfloor>)")
  show "wf (measure (\<lambda>(a :: rat, e :: int). nat \<lfloor>a\<rfloor>))"
    by simp
next
  fix a :: rat and e :: int
  assume big: "2 ^ 53 \<le> a"
  have two: "(2 :: rat) \<le> 2 ^ 53"
    by simp
  have "2 \<le> a"
    using two big by (rule order_trans)
  moreover have "of_int \<lfloor>a / 2\<rfloor> \<le> a / 2"
    by (rule of_int_floor_le)
  moreover have "a < of_int \<lfloor>a\<rfloor> + 1"
    by linarith
  ultimately have "(of_int \<lfloor>a / 2\<rfloor> :: rat) < of_int \<lfloor>a\<rfloor>"
    by linarith
  then have less: "\<lfloor>a / 2\<rfloor> < \<lfloor>a\<rfloor>"
    by (simp only: of_int_less_iff)
  have "(0 :: rat) \<le> a / 2"
    using \<open>2 \<le> a\<close> by simp
  then have "0 \<le> \<lfloor>a / 2\<rfloor>"
    by (simp only: zero_le_floor)
  with less have "nat \<lfloor>a / 2\<rfloor> < nat \<lfloor>a\<rfloor>"
    by linarith
  then show "((a / 2, e + 1), (a, e)) \<in> measure (\<lambda>(a, e). nat \<lfloor>a\<rfloor>)"
    by (simp only: in_measure prod.case)
qed

text \<open>
  Double a significand until it reaches \<open>2^52\<close>, counting the exponent down, but never
  below the exponent \<open>-1074\<close> of the subnormal doubles.
\<close>

function norm_up :: "rat \<Rightarrow> int \<Rightarrow> rat \<times> int" where
  "norm_up a e = (if a < 2 ^ 52 \<and> - 1074 < e then norm_up (2 * a) (e - 1) else (a, e))"
  by pat_completeness auto
termination
  by (relation "measure (\<lambda>(a, e). nat (e + 1074))") auto

declare norm_down.simps [simp del] norm_up.simps [simp del]

definition round_half_even :: "rat \<Rightarrow> int" where
  "round_half_even m =
     (let f = \<lfloor>m\<rfloor>; d = m - of_int f
      in if d < 1 / 2 then f
         else if 1 / 2 < d then f + 1
         else if even f then f else f + 1)"

text \<open>The nearest double of a positive rational; past the largest double, infinity.\<close>

definition rnd_pos :: "rat \<Rightarrow> jsnum" where
  "rnd_pos a =
     (case norm_down a 0 of (a0, e0) \<Rightarrow>
        (case norm_up a0 e0 of (m, e) \<Rightarrow>
           (let r = of_int (round_half_even m) * pow2 e
            in if 2 ^ 1024 \<le> r then PInf else Fin r)))"

fun neg :: "jsnum \<Rightarrow> jsnum" where
  "neg (Fin q) = Fin (- q)"
| "neg PInf = NInf"
| "neg NInf = PInf"
| "neg NaN = NaN"

definition rnd :: "rat \<Rightarrow> jsnum" where
  "rnd q = (if q = 0 then Fin 0 else if 0 < q then rnd_pos q else neg (rnd_pos (- q)))"

text \<open>
  \<^verbatim>\<open>a + b\<close>, \<^verbatim>\<open>a - b\<close> and \<^verbatim>\<open>a / b\<close> on Numbers. The divisor \<open>Fin 0\<close> is the
  positive zero: \<open>150 / 0\<close> is positive infinity.
\<close>

fun jsadd :: "jsnum \<Rightarrow> jsnum \<Rightarrow> jsnum" where
  "jsadd NaN _ = NaN"
| "jsadd _ NaN = NaN"
| "jsadd PInf NInf = NaN"
| "jsadd NInf PInf = NaN"
| "jsadd PInf _ = PInf"
| "jsadd _ PInf = PInf"
| "jsadd NInf _ = NInf"
| "jsadd _ NInf = NInf"
| "jsadd (Fin a) (Fin b) = rnd (a + b)"

definition jssub :: "jsnum \<Rightarrow> jsnum \<Rightarrow> jsnum" where
  "jssub x y = jsadd x (neg y)"

fun jsdiv :: "jsnum \<Rightarrow> jsnum \<Rightarrow> jsnum" where
  "jsdiv NaN _ = NaN"
| "jsdiv _ NaN = NaN"
| "jsdiv (Fin a) (Fin b) =
     (if b = 0 then (if a = 0 then NaN else if 0 < a then PInf else NInf)
      else rnd (a / b))"
| "jsdiv (Fin a) _ = Fin 0"
| "jsdiv PInf (Fin b) = (if 0 \<le> b then PInf else NInf)"
| "jsdiv NInf (Fin b) = (if 0 \<le> b then NInf else PInf)"
| "jsdiv _ _ = NaN"

text \<open>\<^verbatim>\<open>a > b\<close> and \<^verbatim>\<open>a === b\<close> on Numbers: every comparison with NaN is false.\<close>

fun jsgt :: "jsnum \<Rightarrow> jsnum \<Rightarrow> bool" where
  "jsgt NaN _ = False"
| "jsgt _ NaN = False"
| "jsgt (Fin a) (Fin b) = (b < a)"
| "jsgt PInf PInf = False"
| "jsgt PInf _ = True"
| "jsgt _ PInf = False"
| "jsgt NInf _ = False"
| "jsgt _ NInf = True"

fun jseq :: "jsnum \<Rightarrow> jsnum \<Rightarrow> bool" where
  "jseq NaN _ = False"
| "jseq _ NaN = False"
| "jseq x y = (x = y)"

fun is_finite :: "jsnum \<Rightarrow> bool" where
  "is_finite (Fin _) = True"
| "is_finite _ = False"

text \<open>
  The numeric arguments of the operations are Numbers, as their JSDoc comments state.
  \<^verbatim>\<open>parseFloat(x)\<close> of a Number converts it to its shortest decimal string and reads
  that string back, which gives the Number itself.
\<close>

definition parseFloat :: "jsnum \<Rightarrow> jsnum" where
  "parseFloat x = x"

text \<open>
  \<^verbatim>\<open>parseFloat(x.toFixed(2))\<close>. For a finite \<open>x\<close> below \<open>10^21\<close> in magnitude,
  \<^verbatim>\<open>toFixed(2)\<close> prints \<open>n / 100\<close> for the integer \<open>n\<close> nearest to \<open>100 * |x|\<close> (the
  larger one on a tie), with the sign of \<open>x\<close>, and \<^verbatim>\<open>parseFloat\<close> reads the nearest double
  of that decimal. From \<open>10^21\<close> on, and for the infinities and NaN, \<^verbatim>\<open>toFixed\<close> prints
  the Number as \<^verbatim>\<open>String\<close> does, and it is read back unchanged.
\<close>

fun toFixed2 :: "jsnum \<Rightarrow> jsnum" where
  "toFixed2 (Fin q) =
     (if 10 ^ 21 \<le> \<bar>q\<bar> then Fin q
      else let n = \<lfloor>\<bar>q\<bar> * 100 + 1 / 2\<rfloor>
           in rnd ((if q < 0 then - 1 else 1) * of_int n / 100))"
| "toFixed2 x = x"

declare toFixed2.simps(1) [simp del]

section \<open>The data model of \<^verbatim>\<open>src/app.js\<close>\<close>

text \<open>
  The objects \<^verbatim>\<open>addVehicle\<close> and \<^verbatim>\<open>recordFuelConsumption\<close> build, field by field and
  in the order of the object literals. The fields \<^verbatim>\<open>id\<close> and \<^verbatim>\<open>createdAt\<close> occur in both
  objects and carry a prefix here, as does \<^verbatim>\<open>notes\<close>, a reserved word.
\<close>

record vehicle =
  v_id :: string
  name :: string
  fuelType :: string
  v_createdAt :: string
  totalDistance :: jsnum
  totalFuelConsumed :: jsnum

record fuel_record =
  r_id :: string
  vehicleId :: string
  fuelAmount :: jsnum
  distance :: jsnum
  consumption :: jsnum
  date :: string
  r_notes :: string
  r_createdAt :: string

text \<open>The two arrays of a \<^verbatim>\<open>FuelConsumptionTracker\<close> instance.\<close>

record tracker =
  fuelRecords :: "fuel_record list"
  vehicles :: "vehicle list"

text \<open>
  Every \<^verbatim>\<open>throw new Error(...)\<close> of the class: the lookups that find nothing, and the
  \<^verbatim>\<open>catch\<close> of \<^verbatim>\<open>importData\<close>.
\<close>

datatype error = NotFoundError | ImportError

text \<open>
  What an operation reads from its surroundings: the string \<^verbatim>\<open>generateId()\<close> returns
  (built from the clock and \<^verbatim>\<open>Math.random()\<close>) and the two readings of
  \<^verbatim>\<open>new Date().toISOString()\<close> in \<^verbatim>\<open>recordFuelConsumption\<close>. The mirror in
  \<^verbatim>\<open>localStorage\<close> is written by \<^verbatim>\<open>saveToStorage\<close> after each change and read by the
  constructor only; no operation below reads it. In the operations of this section the
  write is the last statement before the \<^verbatim>\<open>return\<close> and outside any \<^verbatim>\<open>try\<close>; they
  are modelled where \<^verbatim>\<open>localStorage\<close> is undefined or takes the write. In
  \<^verbatim>\<open>importData\<close> the write is inside the \<^verbatim>\<open>try\<close>, and its outcome is part of the
  model there.
\<close>

record env =
  generated_id :: string
  now_date :: string
  now_created :: string

text \<open>The \<^verbatim>\<open>updates\<close> argument of \<^verbatim>\<open>updateRecord\<close>: a key is absent or carries a value.\<close>

record updates =
  u_fuelAmount :: "jsnum option"
  u_distance :: "jsnum option"
  u_date :: "string option"
  u_notes :: "string option"

section \<open>Array helpers\<close>

text \<open>\<^verbatim>\<open>Array.prototype.findIndex\<close>; \<open>None\<close> stands for the result \<open>-1\<close>.\<close>

fun findIndex :: "('a \<Rightarrow> bool) \<Rightarrow> 'a list \<Rightarrow> nat option" where
  "findIndex P [] = None"
| "findIndex P (x # xs) = (if P x then Some 0 else map_option Suc (findIndex P xs))"

text \<open>
  \<^verbatim>\<open>Array.prototype.find\<close> returns the first matching object itself, and an assignment to
  one of its fields changes that element of the array: \<open>update_first P f xs\<close> applies \<open>f\<close> to
  the first element that satisfies \<open>P\<close>, and changes nothing when \<^verbatim>\<open>find\<close> returns
  \<^verbatim>\<open>undefined\<close>.
\<close>

fun update_first :: "('a \<Rightarrow> bool) \<Rightarrow> ('a \<Rightarrow> 'a) \<Rightarrow> 'a list \<Rightarrow> 'a list" where
  "update_first P f [] = []"
| "update_first P f (x # xs) = (if P x then f x # xs else x # update_first P f xs)"

text \<open>\<^verbatim>\<open>xs.splice(i, 1)\<close>.\<close>

definition splice1 :: "nat \<Rightarrow> 'a list \<Rightarrow> 'a list" where
  "splice1 i xs = take i xs @ drop (Suc i) xs"

section \<open>The operations\<close>

text \<open>
  \<^verbatim>\<open>addVehicle(vehicleId, name, fuelType = 'petrol')\<close>; the timestamp is the clock
  reading \<open>now_created\<close>.
\<close>

definition addVehicle ::
  "string \<Rightarrow> string \<Rightarrow> string option \<Rightarrow> env \<Rightarrow> tracker \<Rightarrow> tracker \<times> vehicle" where
  "addVehicle vid nm ft e s =
     (let vehicle = \<lparr> v_id = vid, name = nm,
                       fuelType = (case ft of None \<Rightarrow> ''petrol'' | Some t \<Rightarrow> t),
                       v_createdAt = now_created e,
                       totalDistance = Fin 0, totalFuelConsumed = Fin 0 \<rparr>
      in (s\<lparr> vehicles := vehicles s @ [vehicle] \<rparr>, vehicle))"

text \<open>\<^verbatim>\<open>getVehicle\<close> and \<^verbatim>\<open>getVehicleRecords\<close>.\<close>

definition getVehicle :: "string \<Rightarrow> tracker \<Rightarrow> vehicle option" where
  "getVehicle vid s = find (\<lambda>v. v_id v = vid) (vehicles s)"

definition getVehicleRecords :: "string \<Rightarrow> tracker \<Rightarrow> fuel_record list" where
  "getVehicleRecords vid s = filter (\<lambda>record. vehicleId record = vid) (fuelRecords s)"

text \<open>
  \<^verbatim>\<open>recordFuelConsumption(vehicleId, fuelAmount, distance, date = null, notes = '')\<close>.
  \<^verbatim>\<open>date || now\<close> takes the clock for a missing and for an empty date.
\<close>

definition recordFuelConsumption ::
  "string \<Rightarrow> jsnum \<Rightarrow> jsnum \<Rightarrow> string option \<Rightarrow> string option \<Rightarrow> env \<Rightarrow> tracker
     \<Rightarrow> error + tracker \<times> fuel_record" where
  "recordFuelConsumption vid fuel_arg distance_arg date_arg notes_arg e s =
     (case find (\<lambda>v. v_id v = vid) (vehicles s) of
        None \<Rightarrow> Inl NotFoundError
      | Some vehicle \<Rightarrow>
          (let record = \<lparr> r_id = generated_id e,
                           vehicleId = vid,
                           fuelAmount = parseFloat fuel_arg,
                           distance = parseFloat distance_arg,
                           consumption = toFixed2 (jsdiv distance_arg fuel_arg),
                           date = (case date_arg of None \<Rightarrow> now_date e
                                   | Some d \<Rightarrow> if d = [] then now_date e else d),
                           r_notes = (case notes_arg of None \<Rightarrow> [] | Some n \<Rightarrow> n),
                           r_createdAt = now_created e \<rparr>
           in Inr (s\<lparr> fuelRecords := fuelRecords s @ [record],
                       vehicles := update_first (\<lambda>v. v_id v = vid)
                         (\<lambda>v. v\<lparr> totalDistance := jsadd (totalDistance v) (distance record),
                                 totalFuelConsumed :=
                                   jsadd (totalFuelConsumed v) (fuelAmount record) \<rparr>)
                         (vehicles s) \<rparr>,
                   record)))"

text \<open>
  The two \<^verbatim>\<open>reduce\<close> calls of \<^verbatim>\<open>getAverageConsumption\<close>: left folds of \<^verbatim>\<open>+\<close> from
  \<open>0\<close>, in the order of the records.
\<close>

definition totalKm :: "fuel_record list \<Rightarrow> jsnum" where
  "totalKm records = foldl (\<lambda>sum r. jsadd sum (distance r)) (Fin 0) records"

definition totalLiters :: "fuel_record list \<Rightarrow> jsnum" where
  "totalLiters records = foldl (\<lambda>sum r. jsadd sum (fuelAmount r)) (Fin 0) records"

definition getAverageConsumption :: "string \<Rightarrow> tracker \<Rightarrow> jsnum" where
  "getAverageConsumption vid s =
     (let records = getVehicleRecords vid s
      in if length records = 0 then Fin 0
         else if jsgt (totalLiters records) (Fin 0)
              then toFixed2 (jsdiv (totalKm records) (totalLiters records))
              else Fin 0)"

text \<open>
  \<^verbatim>\<open>updateRecord(recordId, updates)\<close>. \<open>patch\<close> is the four guarded assignments, and
  \<open>recalculate\<close> the guarded assignment to \<^verbatim>\<open>consumption\<close> that follows them.
\<close>

definition patch :: "updates \<Rightarrow> fuel_record \<Rightarrow> fuel_record" where
  "patch u r =
     (let r1 = (case u_fuelAmount u of None \<Rightarrow> r | Some x \<Rightarrow> r\<lparr> fuelAmount := parseFloat x \<rparr>);
          r2 = (case u_distance u of None \<Rightarrow> r1 | Some x \<Rightarrow> r1\<lparr> distance := parseFloat x \<rparr>);
          r3 = (case u_date u of None \<Rightarrow> r2 | Some d \<Rightarrow> r2\<lparr> date := d \<rparr>)
      in (case u_notes u of None \<Rightarrow> r3 | Some n \<Rightarrow> r3\<lparr> r_notes := n \<rparr>))"

definition recalculate :: "fuel_record \<Rightarrow> fuel_record" where
  "recalculate r =
     (if jsgt (distance r) (Fin 0) \<and> jsgt (fuelAmount r) (Fin 0)
      then r\<lparr> consumption := toFixed2 (jsdiv (distance r) (fuelAmount r)) \<rparr>
      else r)"

definition updateRecord ::
  "string \<Rightarrow> updates \<Rightarrow> tracker \<Rightarrow> error + tracker \<times> fuel_record" where
  "updateRecord recordId u s =
     (case findIndex (\<lambda>r. r_id r = recordId) (fuelRecords s) of
        None \<Rightarrow> Inl NotFoundError
      | Some recordIndex \<Rightarrow>
          (let oldRecord = fuelRecords s ! recordIndex;
               record = recalculate (patch u oldRecord)
           in Inr (s\<lparr> fuelRecords := (fuelRecords s)[recordIndex := record],
                       vehicles := update_first (\<lambda>v. v_id v = vehicleId record)
                         (\<lambda>v. v\<lparr> totalDistance :=
                                   jsadd (jssub (totalDistance v) (distance oldRecord))
                                     (distance record),
                                 totalFuelConsumed :=
                                   jsadd (jssub (totalFuelConsumed v) (fuelAmount oldRecord))
                                     (fuelAmount record) \<rparr>)
                         (vehicles s) \<rparr>,
                   record)))"

text \<open>\<^verbatim>\<open>deleteRecord(recordId)\<close>; the result \<^verbatim>\<open>true\<close> is the \<open>Inr\<close>.\<close>

definition deleteRecord :: "string \<Rightarrow> tracker \<Rightarrow> error + tracker" where
  "deleteRecord recordId s =
     (case findIndex (\<lambda>r. r_id r = recordId) (fuelRecords s) of
        None \<Rightarrow> Inl NotFoundError
      | Some recordIndex \<Rightarrow>
          (let record = fuelRecords s ! recordIndex
           in Inr (s\<lparr> vehicles := update_first (\<lambda>v. v_id v = vehicleId record)
                         (\<lambda>v. v\<lparr> totalDistance := jssub (totalDistance v) (distance record),
                                 totalFuelConsumed :=
                                   jssub (totalFuelConsumed v) (fuelAmount record) \<rparr>)
                         (vehicles s),
                       fuelRecords := splice1 recordIndex (fuelRecords s) \<rparr>)))"

text \<open>\<^verbatim>\<open>deleteVehicle(vehicleId)\<close>.\<close>

definition deleteVehicle :: "string \<Rightarrow> tracker \<Rightarrow> error + tracker" where
  "deleteVehicle vid s =
     (case findIndex (\<lambda>v. v_id v = vid) (vehicles s) of
        None \<Rightarrow> Inl NotFoundError
      | Some vehicleIndex \<Rightarrow>
          Inr (s\<lparr> fuelRecords := filter (\<lambda>r. vehicleId r \<noteq> vid) (fuelRecords s),
                   vehicles := splice1 vehicleIndex (vehicles s) \<rparr>))"

section \<open>Export and import\<close>

text \<open>
  \<^verbatim>\<open>importData\<close> assigns whatever \<^verbatim>\<open>JSON.parse\<close> returns to \<^verbatim>\<open>this.vehicles\<close> and
  \<^verbatim>\<open>this.fuelRecords\<close>, so this part of the class is modelled on untyped values: the
  values JSON can denote, which are also the values the two arrays of a tracker consist
  of.
\<close>

datatype jsval =
  JNull
| JBool bool
| JNum jsnum
| JStr string
| JArr "jsval list"
| JObj "(string \<times> jsval) list"

text \<open>
  The value \<^verbatim>\<open>JSON.parse(JSON.stringify(v))\<close> of a value \<open>v\<close>: \<^verbatim>\<open>JSON.stringify\<close>
  writes \<^verbatim>\<open>null\<close> for NaN and for the infinities, and every other value comes back as it
  was, the properties of an object in their order.
\<close>

fun jsonify :: "jsval \<Rightarrow> jsval" where
  "jsonify (JNum x) = (if is_finite x then JNum x else JNull)"
| "jsonify (JArr xs) = JArr (map jsonify xs)"
| "jsonify (JObj kvs) = JObj (map (\<lambda>(k, v). (k, jsonify v)) kvs)"
| "jsonify v = v"

text \<open>
  A JSON text is represented by the value it denotes; a string that is not JSON is
  \<open>Malformed\<close>, and \<^verbatim>\<open>JSON.parse\<close> throws on it.
\<close>

datatype json_text = Text jsval | Malformed

definition JSON_stringify :: "jsval \<Rightarrow> json_text" where
  "JSON_stringify v = Text (jsonify v)"

fun JSON_parse :: "json_text \<Rightarrow> jsval option" where
  "JSON_parse (Text v) = Some v"
| "JSON_parse Malformed = None"

text \<open>
  \<^verbatim>\<open>data.vehicles\<close> and \<^verbatim>\<open>data.records\<close>: the property of an object, and
  \<^verbatim>\<open>undefined\<close> (here \<open>None\<close>) on an object without it and on a number, a string, a
  boolean or an array, none of which has a property of either name. On \<^verbatim>\<open>null\<close> the
  access throws; \<^verbatim>\<open>importData\<close> below handles that case before it reads a property.
\<close>

fun property :: "jsval \<Rightarrow> string \<Rightarrow> jsval option" where
  "property (JObj kvs) k = map_of kvs k"
| "property _ k = None"

text \<open>The truth value \<^verbatim>\<open>if (x)\<close> gives a value.\<close>

fun truthy :: "jsval option \<Rightarrow> bool" where
  "truthy None = False"
| "truthy (Some JNull) = False"
| "truthy (Some (JBool b)) = b"
| "truthy (Some (JNum x)) = (x \<noteq> Fin 0 \<and> x \<noteq> NaN)"
| "truthy (Some (JStr s)) = (s \<noteq> [])"
| "truthy (Some (JArr xs)) = True"
| "truthy (Some (JObj kvs)) = True"

text \<open>The values of \<^verbatim>\<open>this.vehicles\<close> and \<^verbatim>\<open>this.fuelRecords\<close>.\<close>

record memory =
  mem_vehicles :: jsval
  mem_fuelRecords :: jsval

text \<open>The objects of a tracker as values, the properties in the order of the literals.\<close>

definition vehicle_obj :: "vehicle \<Rightarrow> jsval" where
  "vehicle_obj v =
     JObj [(''id'', JStr (v_id v)), (''name'', JStr (name v)),
           (''fuelType'', JStr (fuelType v)), (''createdAt'', JStr (v_createdAt v)),
           (''totalDistance'', JNum (totalDistance v)),
           (''totalFuelConsumed'', JNum (totalFuelConsumed v))]"

definition record_obj :: "fuel_record \<Rightarrow> jsval" where
  "record_obj r =
     JObj [(''id'', JStr (r_id r)), (''vehicleId'', JStr (vehicleId r)),
           (''fuelAmount'', JNum (fuelAmount r)), (''distance'', JNum (distance r)),
           (''consumption'', JNum (consumption r)), (''date'', JStr (date r)),
           (''notes'', JStr (r_notes r)), (''createdAt'', JStr (r_createdAt r))]"

definition memory_of :: "tracker \<Rightarrow> memory" where
  "memory_of s =
     \<lparr> mem_vehicles = JArr (map vehicle_obj (vehicles s)),
       mem_fuelRecords = JArr (map record_obj (fuelRecords s)) \<rparr>"

text \<open>\<^verbatim>\<open>exportData()\<close>; \<open>now\<close> is the clock reading for \<^verbatim>\<open>exportedAt\<close>.\<close>

definition exportData :: "string \<Rightarrow> memory \<Rightarrow> json_text" where
  "exportData now m =
     JSON_stringify (JObj [(''vehicles'', mem_vehicles m),
                           (''records'', mem_fuelRecords m),
                           (''exportedAt'', JStr now)])"

text \<open>
  \<^verbatim>\<open>saveToStorage()\<close>. Where \<^verbatim>\<open>localStorage\<close> is undefined nothing is written.
  Where it is defined the two arrays are written with \<^verbatim>\<open>setItem\<close>, which throws when
  the storage refuses the write (the quota is exceeded, or the storage is disabled);
  whether it does depends on the surroundings and on what is written. The result is
  \<open>True\<close> when the call returns and \<open>False\<close> when it throws.
\<close>

datatype storage = NoStorage | Storage "memory \<Rightarrow> bool"

definition saveToStorage :: "storage \<Rightarrow> memory \<Rightarrow> bool" where
  "saveToStorage st m = (case st of NoStorage \<Rightarrow> True | Storage accepts \<Rightarrow> accepts m)"

text \<open>
  \<^verbatim>\<open>importData(jsonData)\<close>. Inside the \<^verbatim>\<open>try\<close>, \<^verbatim>\<open>JSON.parse\<close> throws on a malformed
  text, \<^verbatim>\<open>data.vehicles\<close> throws on \<^verbatim>\<open>null\<close>, and \<^verbatim>\<open>saveToStorage\<close> throws where
  the storage refuses the write, after the two assignments; the \<^verbatim>\<open>catch\<close> turns all
  three into the error of the import. The result is what the call returns or throws, and
  the memory it leaves.
\<close>

definition importData ::
  "json_text \<Rightarrow> storage \<Rightarrow> memory \<Rightarrow> (error + jsval) \<times> memory" where
  "importData jsonData st m =
     (case JSON_parse jsonData of
        None \<Rightarrow> (Inl ImportError, m)
      | Some JNull \<Rightarrow> (Inl ImportError, m)
      | Some data \<Rightarrow>
          (let m1 = (case property data ''vehicles'' of
                       Some v \<Rightarrow> if truthy (Some v) then m\<lparr> mem_vehicles := v \<rparr> else m
                     | None \<Rightarrow> m);
               m2 = (case property data ''records'' of
                       Some v \<Rightarrow> if truthy (Some v) then m1\<lparr> mem_fuelRecords := v \<rparr> else m1
                     | None \<Rightarrow> m1)
           in if saveToStorage st m2 then (Inr data, m2) else (Inl ImportError, m2)))"

section \<open>Sequences of calls\<close>

text \<open>
  A call of one of the three operations that create, change and remove records, and the
  tracker it leaves: the updated one, or the old one when the call throws. \<open>run\<close>
  performs a list of calls from left to right.
\<close>

datatype call =
  RecordFuelConsumption string jsnum jsnum "string option" "string option" env
| UpdateRecord string updates
| DeleteRecord string

definition perform :: "call \<Rightarrow> tracker \<Rightarrow> tracker" where
  "perform c s =
     (case c of
        RecordFuelConsumption vid fuel_arg distance_arg date_arg notes_arg e \<Rightarrow>
          (case recordFuelConsumption vid fuel_arg distance_arg date_arg notes_arg e s of
             Inl err \<Rightarrow> s | Inr (s', r) \<Rightarrow> s')
      | UpdateRecord recordId u \<Rightarrow>
          (case updateRecord recordId u s of Inl err \<Rightarrow> s | Inr (s', r) \<Rightarrow> s')
      | DeleteRecord recordId \<Rightarrow>
          (case deleteRecord recordId s of Inl err \<Rightarrow> s | Inr s' \<Rightarrow> s'))"

fun run :: "call list \<Rightarrow> tracker \<Rightarrow> tracker" where
  "run [] s = s"
| "run (c # cs) s = run cs (perform c s)"

text \<open>
  Two states of one vehicle object: the same id, and a total that was NaN is NaN still.
\<close>

definition keeps_NaN :: "vehicle \<Rightarrow> vehicle \<Rightarrow> bool" where
  "keeps_NaN v v' \<longleftrightarrow>
     v_id v' = v_id v \<and>
     (totalDistance v = NaN \<longrightarrow> totalDistance v' = NaN) \<and>
     (totalFuelConsumed v = NaN \<longrightarrow> totalFuelConsumed v' = NaN)"

section \<open>Invariants and side conditions\<close>

text \<open>
  The aggregate invariant: for every vehicle of the tracker, each total equals, under
  \<^verbatim>\<open>==\<close>, the sum of the field over the records \<^verbatim>\<open>getVehicleRecords\<close> finds for its
  id; the sums are the ones \<^verbatim>\<open>getAverageConsumption\<close> computes.
\<close>

definition aggregates_ok :: "tracker \<Rightarrow> bool" where
  "aggregates_ok s =
     list_all
       (\<lambda>v. jseq (totalDistance v) (totalKm (getVehicleRecords (v_id v) s)) \<and>
            jseq (totalFuelConsumed v) (totalLiters (getVehicleRecords (v_id v) s)))
       (vehicles s)"

text \<open>The trackers a list of calls goes through, the first one included.\<close>

fun states :: "call list \<Rightarrow> tracker \<Rightarrow> tracker list" where
  "states [] s = [s]"
| "states (c # cs) s = s # states cs (perform c s)"

text \<open>
  Quantities on which the arithmetic of doubles is exact: a Number is \<open>whole\<close> when it is a
  natural number, \<open>amount\<close> is that natural number, and a tracker is in the exact range
  when the distance and fuel amount of every record are whole and the distances of all
  records together, and their fuel amounts together, stay below \<open>2^53\<close>.
\<close>

definition whole :: "jsnum \<Rightarrow> bool" where
  "whole x = (case x of Fin q \<Rightarrow> 0 \<le> q \<and> of_int \<lfloor>q\<rfloor> = q | _ \<Rightarrow> False)"

definition amount :: "jsnum \<Rightarrow> nat" where
  "amount x = (case x of Fin q \<Rightarrow> nat \<lfloor>q\<rfloor> | _ \<Rightarrow> 0)"

definition exact_range :: "tracker \<Rightarrow> bool" where
  "exact_range s \<longleftrightarrow>
     list_all (\<lambda>r. whole (distance r) \<and> whole (fuelAmount r)) (fuelRecords s) \<and>
     sum_list (map (\<lambda>r. amount (distance r)) (fuelRecords s)) < 2 ^ 53 \<and>
     sum_list (map (\<lambda>r. amount (fuelAmount r)) (fuelRecords s)) < 2 ^ 53"

text \<open>
  The exact sum, as a natural number, of one field over the records of one vehicle id, and
  the invariant stated with these sums.
\<close>

definition part :: "string \<Rightarrow> (fuel_record \<Rightarrow> jsnum) \<Rightarrow> fuel_record list \<Rightarrow> nat" where
  "part k g rs = sum_list (map (\<lambda>r. amount (g r)) (filter (\<lambda>r. vehicleId r = k) rs))"

definition exact_totals :: "tracker \<Rightarrow> bool" where
  "exact_totals s =
     list_all
       (\<lambda>v. totalDistance v = Fin (of_nat (part (v_id v) distance (fuelRecords s))) \<and>
            totalFuelConsumed v = Fin (of_nat (part (v_id v) fuelAmount (fuelRecords s))))
       (vehicles s)"

text \<open>
  A record whose consumption is what \<^verbatim>\<open>updateRecord\<close> would compute for it, and a
  quantity that can be taken out of a total and put back without rounding.
\<close>

definition consumption_current :: "fuel_record \<Rightarrow> bool" where
  "consumption_current r =
     (if jsgt (distance r) (Fin 0) \<and> jsgt (fuelAmount r) (Fin 0)
      then consumption r = toFixed2 (jsdiv (distance r) (fuelAmount r))
      else True)"

definition whole_part :: "jsnum \<Rightarrow> jsnum \<Rightarrow> bool" where
  "whole_part x t \<longleftrightarrow>
     whole x \<and> whole t \<and> amount x \<le> amount t \<and> amount t < 2 ^ 53"

text \<open>A tracker without NaN and infinities in its numeric fields.\<close>

definition all_finite :: "tracker \<Rightarrow> bool" where
  "all_finite s \<longleftrightarrow>
     list_all (\<lambda>v. is_finite (totalDistance v) \<and> is_finite (totalFuelConsumed v)) (vehicles s) \<and>
     list_all (\<lambda>r. is_finite (fuelAmount r) \<and> is_finite (distance r) \<and>
                 is_finite (consumption r)) (fuelRecords s)"

text \<open>
  The expected snapshot structure in the words of the specification (section 6): an
  object with the fields \<^verbatim>\<open>vehicles\<close> (an array), \<^verbatim>\<open>records\<close> (an array) and
  \<^verbatim>\<open>exportedAt\<close>, where import tolerates the absence of either collection.
\<close>

fun is_array :: "jsval \<Rightarrow> bool" where
  "is_array (JArr xs) = True"
| "is_array _ = False"

fun spec_snapshot_structure :: "jsval \<Rightarrow> bool" where
  "spec_snapshot_structure (JObj kvs) =
     ((case map_of kvs ''vehicles'' of None \<Rightarrow> True | Some v \<Rightarrow> is_array v) \<and>
      (case map_of kvs ''records'' of None \<Rightarrow> True | Some v \<Rightarrow> is_array v))"
| "spec_snapshot_structure _ = False"

section \<open>Example values\<close>

text \<open>
  The tracker a constructor builds where there is no \<^verbatim>\<open>localStorage\<close>, one reading of
  the surroundings, and the tracker after \<^verbatim>\<open>addVehicle("v1", "Car A")\<close>.
\<close>

definition empty_tracker :: tracker where
  "empty_tracker = \<lparr> fuelRecords = [], vehicles = [] \<rparr>"

definition env1 :: env where
  "env1 = \<lparr> generated_id = ''1700000000000-abc123def'',
            now_date = ''2023-11-14T22:13:20.000Z'',
            now_created = ''2023-11-14T22:13:20.000Z'' \<rparr>"

definition car_a :: tracker where
  "car_a = fst (addVehicle ''v1'' ''Car A'' None env1 empty_tracker)"

text \<open>
  The tracker after \<^verbatim>\<open>recordFuelConsumption("v1", 10, 150)\<close> on \<open>car_a\<close>, the one after
  \<^verbatim>\<open>recordFuelConsumption("v1", -5, 100)\<close> on \<open>car_a\<close>, and the empty \<^verbatim>\<open>updates\<close>
  object.
\<close>

definition one_entry :: tracker where
  "one_entry =
     (case recordFuelConsumption ''v1'' (Fin 10) (Fin 150) None None env1 car_a of
        Inl err \<Rightarrow> car_a
      | Inr (s, r) \<Rightarrow> s)"

definition no_updates :: updates where
  "no_updates = \<lparr> u_fuelAmount = None, u_distance = None, u_date = None, u_notes = None \<rparr>"

definition negative_fuel :: tracker where
  "negative_fuel =
     (case recordFuelConsumption ''v1'' (Fin (- 5)) (Fin 100) None None env1 car_a of
        Inl err \<Rightarrow> car_a
      | Inr (s, r) \<Rightarrow> s)"

text \<open>
  Further trackers: after \<^verbatim>\<open>recordFuelConsumption("v1", 0, 150)\<close> on \<open>car_a\<close>; \<open>car_a\<close>
  after a second \<^verbatim>\<open>addVehicle("v1", "Car B")\<close>; \<open>one_entry\<close> with a consumption that
  does not fit its distance and fuel amount, as an import can deliver it; and \<open>car_a\<close>
  after three entries of 0.1, 0.2 and 0.4 kilometres, where \<open>tenth\<close>, \<open>two_tenths\<close> and
  \<open>four_tenths\<close> are the doubles the literals \<^verbatim>\<open>0.1\<close>, \<^verbatim>\<open>0.2\<close> and \<^verbatim>\<open>0.4\<close> denote.
\<close>

definition zero_fuel_entry :: tracker where
  "zero_fuel_entry =
     (case recordFuelConsumption ''v1'' (Fin 0) (Fin 150) None None env1 car_a of
        Inl err \<Rightarrow> car_a
      | Inr (s, r) \<Rightarrow> s)"

definition two_cars_one_id :: tracker where
  "two_cars_one_id = fst (addVehicle ''v1'' ''Car B'' None env1 car_a)"

definition env2 :: env where
  "env2 = \<lparr> generated_id = ''1700000000001-xyz987uvw'',
            now_date = ''2023-11-14T22:13:21.000Z'',
            now_created = ''2023-11-14T22:13:21.000Z'' \<rparr>"

definition tenth :: jsnum where
  "tenth = rnd (1 / 10)"

definition two_tenths :: jsnum where
  "two_tenths = rnd (2 / 10)"

definition stale_entry :: tracker where
  "stale_entry =
     one_entry\<lparr> fuelRecords := map (\<lambda>r. r\<lparr> consumption := Fin 99 \<rparr>) (fuelRecords one_entry) \<rparr>"

definition env3 :: env where
  "env3 = \<lparr> generated_id = ''1700000000002-klm456nop'',
            now_date = ''2023-11-14T22:13:22.000Z'',
            now_created = ''2023-11-14T22:13:22.000Z'' \<rparr>"

definition four_tenths :: jsnum where
  "four_tenths = rnd (4 / 10)"

definition three_entries :: tracker where
  "three_entries =
     run [RecordFuelConsumption ''v1'' (Fin 1) tenth None None env1,
          RecordFuelConsumption ''v1'' (Fin 1) two_tenths None None env2,
          RecordFuelConsumption ''v1'' (Fin 1) four_tenths None None env3] car_a"

text \<open>
  The two runs that break the aggregate invariant: an entry for the doubled id, and two
  entries of which the first is deleted again.
\<close>

definition after_duplicate :: tracker where
  "after_duplicate =
     run [RecordFuelConsumption ''v1'' (Fin 10) (Fin 150) None None env1] two_cars_one_id"

definition after_tenths :: tracker where
  "after_tenths =
     run [RecordFuelConsumption ''v1'' (Fin 1) tenth None None env1,
          RecordFuelConsumption ''v1'' (Fin 1) two_tenths None None env2,
          DeleteRecord ''1700000000000-abc123def''] car_a"

text \<open>
  Trackers whose quotient is not a two-decimal number or is not computed: \<open>car_a\<close> after
  \<^verbatim>\<open>recordFuelConsumption("v1", 3, 100)\<close>, after
  \<^verbatim>\<open>recordFuelConsumption("v1", NaN, 100)\<close>, and \<open>one_entry\<close> after
  \<^verbatim>\<open>updateRecord(id, {distance: 0})\<close>.
\<close>

definition thirds_entry :: tracker where
  "thirds_entry = perform (RecordFuelConsumption ''v1'' (Fin 3) (Fin 100) None None env1) car_a"

definition nan_fuel_entry :: tracker where
  "nan_fuel_entry = perform (RecordFuelConsumption ''v1'' NaN (Fin 100) None None env1) car_a"

definition zero_distance_entry :: tracker where
  "zero_distance_entry =
     perform (UpdateRecord ''1700000000000-abc123def'' (no_updates\<lparr> u_distance := Some (Fin 0) \<rparr>))
       one_entry"

text \<open>
  A \<^verbatim>\<open>localStorage\<close> that takes every write, and one that refuses every write.
\<close>

definition accepting :: storage where
  "accepting = Storage (\<lambda>m. True)"

definition refusing :: storage where
  "refusing = Storage (\<lambda>m. False)"

section \<open>Exact arithmetic on whole numbers\<close>

text \<open>
  An integer below \<open>2^53\<close> in magnitude is a double, so rounding returns it unchanged; the
  same holds for its two-decimal print read back.
\<close>

lemma pow2_zero: "pow2 0 = 1"
  by (simp add: pow2_def)

lemma pow2_pred: "e \<le> 0 \<Longrightarrow> 2 * pow2 (e - 1) = pow2 e"
proof -
  assume e: "e \<le> 0"
  then have "nat (1 - e) = Suc (nat (- e))"
    by linarith
  with e show ?thesis
    by (simp add: pow2_def)
qed

lemma norm_down_small: "a < 2 ^ 53 \<Longrightarrow> norm_down a e = (a, e)"
  by (subst norm_down.simps) simp

lemma norm_up_int:
  "norm_up m e = (m', e') \<Longrightarrow> m \<in> \<int> \<Longrightarrow> m < 2 ^ 53 \<Longrightarrow> e \<le> 0 \<Longrightarrow>
     m' \<in> \<int> \<and> m' * pow2 e' = m * pow2 e"
proof (induction m e rule: norm_up.induct)
  case (1 a e)
  show ?case
  proof (cases "a < 2 ^ 52 \<and> - 1074 < e")
    case True
    then have step: "norm_up (2 * a) (e - 1) = (m', e')"
      using "1.prems"(1) by (subst (asm) norm_up.simps) simp
    have "2 * a \<in> \<int>"
      using "1.prems"(2) by simp
    moreover have "2 * a < 2 ^ 53"
      using True by simp
    moreover have "e - 1 \<le> 0"
      using "1.prems"(4) by simp
    ultimately have "m' \<in> \<int> \<and> m' * pow2 e' = 2 * a * pow2 (e - 1)"
      using "1.IH" [OF True step] by blast
    moreover have "2 * a * pow2 (e - 1) = a * pow2 e"
      using pow2_pred [OF "1.prems"(4)] by (simp add: mult.assoc mult.left_commute)
    ultimately show ?thesis
      by simp
  next
    case False
    then have "norm_up a e = (a, e)"
      by (subst norm_up.simps) (simp only: if_False)
    with "1.prems" show ?thesis
      by simp
  qed
qed

lemma round_half_even_int: "m \<in> \<int> \<Longrightarrow> of_int (round_half_even m) = m"
  by (auto simp: round_half_even_def Let_def elim!: Ints_cases)

lemma rnd_pos_int:
  assumes "0 < k" "k < 2 ^ 53"
  shows "rnd_pos (of_int k) = Fin (of_int k)"
proof -
  let ?a = "of_int k :: rat"
  have small: "?a < 2 ^ 53"
  proof -
    have "?a < of_int (2 ^ 53)"
      using assms(2) by (simp only: of_int_less_iff)
    then show ?thesis by simp
  qed
  obtain m e where up: "norm_up ?a 0 = (m, e)"
    by (cases "norm_up ?a 0")
  have "m \<in> \<int> \<and> m * pow2 e = ?a * pow2 0"
    using norm_up_int [OF up _ small] by simp
  then have m: "of_int (round_half_even m) * pow2 e = ?a"
    by (simp add: round_half_even_int pow2_zero)
  have "(2 :: rat) ^ 53 \<le> 2 ^ 1024"
    by (rule power_increasing) simp_all
  with small have "\<not> 2 ^ 1024 \<le> ?a"
    by linarith
  then show ?thesis
    by (simp add: rnd_pos_def norm_down_small [OF small] up Let_def m)
qed

lemma rnd_int: "\<bar>k\<bar> < 2 ^ 53 \<Longrightarrow> rnd (of_int k) = Fin (of_int k)"
proof -
  assume b: "\<bar>k\<bar> < 2 ^ 53"
  consider "k = 0" | "0 < k" | "k < 0" by linarith
  then show ?thesis
  proof cases
    case 1 then show ?thesis by (simp add: rnd_def)
  next
    case 2 
    with b have "k < 2 ^ 53" by simp
    with 2 show ?thesis by (simp add: rnd_def rnd_pos_int)
  next
    case 3
    with b have "- k < 2 ^ 53" "0 < - k" by simp_all
    then have "rnd_pos (of_int (- k)) = Fin (of_int (- k))"
      by (simp only: rnd_pos_int)
    with 3 show ?thesis by (simp add: rnd_def)
  qed
qed

lemma toFixed2_int:
  assumes "\<bar>k\<bar> < 2 ^ 53"
  shows "toFixed2 (Fin (of_int k)) = Fin (of_int k)"
proof -
  have "(2 :: int) ^ 53 \<le> 10 ^ 21" by simp
  with assms have "\<bar>k\<bar> < 10 ^ 21" by linarith
  then have "\<bar>of_int k :: rat\<bar> < of_int (10 ^ 21)"
    by (simp only: of_int_abs [symmetric] of_int_less_iff)
  then have small: "\<not> (10 :: rat) ^ 21 \<le> \<bar>of_int k\<bar>"
    by simp
  have fl: "\<lfloor>\<bar>of_int k :: rat\<bar> * 100 + 1 / 2\<rfloor> = \<bar>k\<bar> * 100"
  proof -
    have "\<lfloor>of_int (\<bar>k\<bar> * 100) + (1 / 2 :: rat)\<rfloor> = \<bar>k\<bar> * 100"
      by (rule floor_unique) simp_all
    then show ?thesis
      by simp
  qed
  have "(if (of_int k :: rat) < 0 then - 1 else 1) * of_int (\<bar>k\<bar> * 100) / 100 = (of_int k :: rat)"
    by (simp add: abs_if)
  then show ?thesis
    using small rnd_int [OF assms] by (simp only: toFixed2.simps fl Let_def if_False)
qed


lemma rnd_numeral: "numeral n < (2 :: int) ^ 53 \<Longrightarrow> rnd (numeral n) = Fin (numeral n)"
  using rnd_int [of "numeral n"] by simp

lemma toFixed2_numeral:
  "numeral n < (2 :: int) ^ 53 \<Longrightarrow> toFixed2 (Fin (numeral n)) = Fin (numeral n)"
  using toFixed2_int [of "numeral n"] by simp

lemma rnd_neg_numeral:
  "numeral n < (2 :: int) ^ 53 \<Longrightarrow> rnd (- numeral n) = Fin (- numeral n)"
  using rnd_int [of "- numeral n"] by simp

lemma toFixed2_neg_numeral:
  "numeral n < (2 :: int) ^ 53 \<Longrightarrow> toFixed2 (Fin (- numeral n)) = Fin (- numeral n)"
  using toFixed2_int [of "- numeral n"] by simp

lemma rnd_zero: "rnd 0 = Fin 0"
  by (simp add: rnd_def)

lemma rnd_one: "rnd 1 = Fin 1"
  using rnd_int [of 1] by simp

lemma jssub_Fin: "jssub (Fin a) (Fin b) = rnd (a - b)"
  by (simp add: jssub_def)

lemma floor_rat_numeral:
  "\<lfloor>(numeral a :: rat) / numeral b\<rfloor> = numeral a div numeral b"
  using floor_divide_of_int_eq [of "numeral a" "numeral b", where ?'a = rat] by simp

lemmas rounding =
  rnd_def rnd_pos_def round_half_even_def pow2_def Let_def norm_up.simps norm_down.simps
  floor_rat_numeral

lemma tenth_eq: "tenth = Fin (3602879701896397 / 36028797018963968)"
  by (simp add: tenth_def rounding)

lemma two_tenths_eq: "two_tenths = Fin (7205759403792794 / 36028797018963968)"
  by (simp add: two_tenths_def rounding)

lemma four_tenths_eq: "four_tenths = Fin (3602879701896397 / 9007199254740992)"
  by (simp add: four_tenths_def rounding)

lemma tenths:
  "jsadd (Fin 0) tenth = tenth"
  "jsadd (Fin 0) two_tenths = two_tenths"
  "jsadd tenth two_tenths = Fin (1351079888211149 / 4503599627370496)"
  "jssub (Fin (1351079888211149 / 4503599627370496)) tenth
     = Fin (7205759403792795 / 36028797018963968)"
  by (simp_all add: tenth_eq two_tenths_eq jssub_def rounding)

lemma tenths_more:
  "jsadd (Fin (1351079888211149 / 4503599627370496)) four_tenths
     = Fin (6305039478318695 / 9007199254740992)"
  "jssub (Fin (6305039478318695 / 9007199254740992)) two_tenths = Fin (1 / 2)"
  "jsadd (Fin (1 / 2)) two_tenths = Fin (6305039478318694 / 9007199254740992)"
  by (simp_all add: two_tenths_eq four_tenths_eq jssub_def rounding)

lemma tenths_consumption:
  "toFixed2 (jsdiv tenth (Fin 1)) = tenth"
  "toFixed2 (jsdiv two_tenths (Fin 1)) = two_tenths"
  "toFixed2 (jsdiv four_tenths (Fin 1)) = four_tenths"
  "jsgt tenth (Fin 0)" "jsgt two_tenths (Fin 0)" "jsgt four_tenths (Fin 0)"
  by (simp_all add: tenth_eq two_tenths_eq four_tenths_eq toFixed2.simps(1) rounding)

text \<open>
  The two-decimal print read back is the double nearest to a multiple of \<open>1/100\<close> that
  lies within \<open>1/200\<close> of the Number. The quotient 100 / 3 is the double
  33.333333333333336 and is printed as 33.33, which is read back as the double nearest
  to 3333 / 100.
\<close>

lemma toFixed2_two_decimals:
  assumes "\<bar>q\<bar> < 10 ^ 21"
  shows "\<exists>n :: int. toFixed2 (Fin q) = rnd (of_int n / 100) \<and> \<bar>q - of_int n / 100\<bar> \<le> 1 / 200"
proof -
  define k where "k = \<lfloor>\<bar>q\<bar> * 100 + 1 / 2\<rfloor>"
  define n where "n = (if q < 0 then - k else k)"
  have lower: "of_int k \<le> \<bar>q\<bar> * 100 + 1 / 2"
    unfolding k_def by (rule of_int_floor_le)
  have upper: "\<bar>q\<bar> * 100 + 1 / 2 < of_int k + 1"
    unfolding k_def by linarith
  have "toFixed2 (Fin q) = rnd ((if q < 0 then - 1 else 1) * of_int k / 100)"
    using assms by (simp add: toFixed2.simps(1) k_def Let_def)
  also have "(if q < 0 then - 1 else 1) * (of_int k :: rat) / 100 = of_int n / 100"
    by (simp add: n_def)
  finally have printed: "toFixed2 (Fin q) = rnd (of_int n / 100)" .
  have near: "\<bar>q - of_int n / 100\<bar> \<le> 1 / 200"
  proof (cases "q < 0")
    case True
    then have "of_int n = - (of_int k :: rat)" "\<bar>q\<bar> = - q"
      by (simp_all add: n_def)
    with lower upper show ?thesis
      by linarith
  next
    case False
    then have "of_int n = (of_int k :: rat)" "\<bar>q\<bar> = q"
      by (simp_all add: n_def)
    with lower upper show ?thesis
      by linarith
  qed
  from printed near show ?thesis
    by blast
qed

lemma thirds:
  "rnd (100 / 3) = Fin (4691249611844267 / 140737488355328)"
  "toFixed2 (Fin (4691249611844267 / 140737488355328))
     = Fin (2345390243441541 / 70368744177664)"
  "rnd (3333 / 100) = Fin (2345390243441541 / 70368744177664)"
  by (simp_all add: toFixed2.simps(1) rounding)


lemma one_entry_eq:
  "one_entry =
     \<lparr> fuelRecords =
         [\<lparr> r_id = ''1700000000000-abc123def'', vehicleId = ''v1'', fuelAmount = Fin 10,
            distance = Fin 150, consumption = Fin 15, date = ''2023-11-14T22:13:20.000Z'',
            r_notes = [], r_createdAt = ''2023-11-14T22:13:20.000Z'' \<rparr>],
       vehicles =
         [\<lparr> v_id = ''v1'', name = ''Car A'', fuelType = ''petrol'',
            v_createdAt = ''2023-11-14T22:13:20.000Z'', totalDistance = Fin 150,
            totalFuelConsumed = Fin 10 \<rparr>] \<rparr>"
  by (simp add: one_entry_def recordFuelConsumption_def car_a_def addVehicle_def
      empty_tracker_def env1_def parseFloat_def Let_def rnd_numeral toFixed2_numeral)

section \<open>Lookups after an update in place\<close>

lemma find_update_first_same:
  "(\<And>x. P (f x) = P x) \<Longrightarrow> find P (update_first P f xs) = map_option f (find P xs)"
  by (induction xs) auto

lemma findIndex_Some:
  "findIndex P xs = Some i \<Longrightarrow> i < length xs \<and> P (xs ! i) \<and> find P xs = Some (xs ! i)"
  by (induction xs arbitrary: i) (auto split: if_splits)

lemma findIndex_None: "findIndex P xs = None \<longleftrightarrow> find P xs = None"
  by (induction xs) auto

lemma splice1_remove1:
  "findIndex P xs = Some i \<Longrightarrow> splice1 i xs = remove1 (xs ! i) xs"
proof (induction xs arbitrary: i)
  case Nil
  then show ?case by simp
next
  case (Cons a as)
  show ?case
  proof (cases "P a")
    case True
    with Cons.prems show ?thesis by (simp add: splice1_def)
  next
    case False
    with Cons.prems obtain j where j: "findIndex P as = Some j" "i = Suc j"
      by auto
    from findIndex_Some [OF j(1)] False have "as ! j \<noteq> a"
      by auto
    with Cons.IH [OF j(1)] j(2) show ?thesis
      by (simp add: splice1_def)
  qed
qed

section \<open>Recording a fuel entry\<close>



lemma toFixed2_not_finite: "\<not> is_finite x \<Longrightarrow> toFixed2 x = x"
  by (cases x) simp_all

lemma jsdiv_zero_not_finite: "\<not> is_finite (jsdiv x (Fin 0))"
  by (cases x) simp_all

text \<open>
  Claim C7. With a fuel amount of zero and an existing vehicle, \<^verbatim>\<open>recordFuelConsumption\<close>
  raises nothing: the consumption it computes is the quotient by zero, an infinity or NaN,
  and the record that carries it is stored as the last record of the tracker.
\<close>

theorem zero_fuelAmount_stored:
  "getVehicle vid s = Some v \<longrightarrow>
     (case recordFuelConsumption vid (Fin 0) distance_arg date_arg notes_arg e s of
        Inl err \<Rightarrow> False
      | Inr (s', r) \<Rightarrow>
          \<not> is_finite (consumption r) \<and> consumption r = jsdiv distance_arg (Fin 0) \<and>
          last (fuelRecords s') = r)"
  by (simp add: recordFuelConsumption_def getVehicle_def Let_def toFixed2_not_finite
      jsdiv_zero_not_finite)

theorem zero_fuelAmount_stored_witness:
  "getVehicle ''v1'' car_a \<noteq> None \<and>
   (case recordFuelConsumption ''v1'' (Fin 0) (Fin 150) None None env1 car_a of
      Inl err \<Rightarrow> False
    | Inr (s', r) \<Rightarrow> consumption r = PInf \<and> map consumption (fuelRecords s') = [PInf])"
  using zero_fuelAmount_stored
    [of "''v1''" car_a "the (getVehicle ''v1'' car_a)" "Fin 150" None None env1]
  by (simp add: recordFuelConsumption_def getVehicle_def car_a_def addVehicle_def
      empty_tracker_def Let_def)

section \<open>Updating a record\<close>

lemma patch_fields:
  "r_id (patch u r) = r_id r"
  "vehicleId (patch u r) = vehicleId r"
  "r_createdAt (patch u r) = r_createdAt r"
  "consumption (patch u r) = consumption r"
  "fuelAmount (patch u r) = (case u_fuelAmount u of None \<Rightarrow> fuelAmount r | Some x \<Rightarrow> parseFloat x)"
  "distance (patch u r) = (case u_distance u of None \<Rightarrow> distance r | Some x \<Rightarrow> parseFloat x)"
  "date (patch u r) = (case u_date u of None \<Rightarrow> date r | Some d \<Rightarrow> d)"
  "r_notes (patch u r) = (case u_notes u of None \<Rightarrow> r_notes r | Some n \<Rightarrow> n)"
  by (simp_all add: patch_def Let_def split: option.splits)

lemma recalculate_fields:
  "r_id (recalculate r) = r_id r"
  "vehicleId (recalculate r) = vehicleId r"
  "r_createdAt (recalculate r) = r_createdAt r"
  "fuelAmount (recalculate r) = fuelAmount r"
  "distance (recalculate r) = distance r"
  "date (recalculate r) = date r"
  "r_notes (recalculate r) = r_notes r"
  "consumption (recalculate r) =
     (if jsgt (distance r) (Fin 0) \<and> jsgt (fuelAmount r) (Fin 0)
      then toFixed2 (jsdiv (distance r) (fuelAmount r)) else consumption r)"
  by (simp_all add: recalculate_def)



section \<open>Deleting a vehicle\<close>

text \<open>
  Claim C4. \<^verbatim>\<open>deleteVehicle\<close> fails with the not-found error when no vehicle has the
  given id. Otherwise it removes every record of that vehicle id and keeps the others,
  removes the vehicle that \<^verbatim>\<open>getVehicle\<close> finds under the id, and returns; the records
  \<^verbatim>\<open>getVehicleRecords\<close> then finds for the id are none.
\<close>

theorem deleteVehicle_contract:
  "(getVehicle vid s = None \<longrightarrow> deleteVehicle vid s = Inl NotFoundError) \<and>
   (\<forall>v. getVehicle vid s = Some v \<longrightarrow>
      (case deleteVehicle vid s of
         Inl err \<Rightarrow> False
       | Inr s' \<Rightarrow>
           fuelRecords s' = filter (\<lambda>r. vehicleId r \<noteq> vid) (fuelRecords s) \<and>
           vehicles s' = remove1 v (vehicles s) \<and>
           getVehicleRecords vid s' = []))"
proof (intro conjI allI impI)
  assume "getVehicle vid s = None"
  then show "deleteVehicle vid s = Inl NotFoundError"
    by (simp add: deleteVehicle_def getVehicle_def findIndex_None [symmetric])
next
  fix v
  assume v: "getVehicle vid s = Some v"
  then obtain i where i: "findIndex (\<lambda>v. v_id v = vid) (vehicles s) = Some i"
    by (cases "findIndex (\<lambda>v. v_id v = vid) (vehicles s)")
      (simp_all add: findIndex_None getVehicle_def)
  from findIndex_Some [OF i] v have "vehicles s ! i = v"
    by (simp add: getVehicle_def)
  with splice1_remove1 [OF i] have "splice1 i (vehicles s) = remove1 v (vehicles s)"
    by simp
  then show "case deleteVehicle vid s of
         Inl err \<Rightarrow> False
       | Inr s' \<Rightarrow>
           fuelRecords s' = filter (\<lambda>r. vehicleId r \<noteq> vid) (fuelRecords s) \<and>
           vehicles s' = remove1 v (vehicles s) \<and>
           getVehicleRecords vid s' = []"
    by (simp add: deleteVehicle_def i getVehicleRecords_def filter_empty_conv)
qed

theorem deleteVehicle_contract_witness:
  "getVehicle ''v2'' one_entry = None \<and>
   deleteVehicle ''v2'' one_entry = Inl NotFoundError \<and>
   getVehicle ''v1'' one_entry \<noteq> None \<and>
   deleteVehicle ''v1'' one_entry = Inr empty_tracker \<and>
   getVehicleRecords ''v1'' empty_tracker = []"
  using deleteVehicle_contract [of "''v2''" one_entry]
    deleteVehicle_contract [of "''v1''" one_entry]
  by (simp add: one_entry_eq deleteVehicle_def getVehicle_def getVehicleRecords_def
      empty_tracker_def splice1_def)

section \<open>NaN in an update\<close>

lemma jsadd_NaN_right: "jsadd x NaN = NaN"
  by (cases x) simp_all

lemma jssub_NaN_left: "jssub NaN x = NaN"
  by (simp add: jssub_def)

lemma update_first_rel:
  assumes "\<And>x. R x x" and "\<And>x. R x (f x)"
  shows "list_all2 R xs (update_first P f xs)"
  by (induction xs) (auto simp: assms list_all2_refl)

lemma keeps_NaN_refl: "keeps_NaN v v"
  by (simp add: keeps_NaN_def)

lemma keeps_NaN_trans: "keeps_NaN a b \<Longrightarrow> keeps_NaN b c \<Longrightarrow> keeps_NaN a c"
  by (simp add: keeps_NaN_def)

lemma perform_keeps_NaN: "list_all2 keeps_NaN (vehicles s) (vehicles (perform c s))"
proof (cases c)
  case (RecordFuelConsumption vid fuel_arg distance_arg date_arg notes_arg e)
  then show ?thesis
    by (auto simp: perform_def recordFuelConsumption_def Let_def keeps_NaN_def
        list_all2_refl intro!: update_first_rel split: option.splits)
next
  case (UpdateRecord recordId u)
  then show ?thesis
    by (auto simp: perform_def updateRecord_def Let_def keeps_NaN_def jssub_NaN_left
        list_all2_refl intro!: update_first_rel split: option.splits)
next
  case (DeleteRecord recordId)
  then show ?thesis
    by (auto simp: perform_def deleteRecord_def Let_def keeps_NaN_def jssub_NaN_left
        list_all2_refl intro!: update_first_rel split: option.splits)
qed

lemma run_keeps_NaN: "list_all2 keeps_NaN (vehicles s) (vehicles (run cs s))"
proof (induction cs arbitrary: s)
  case Nil
  show ?case by (simp add: list_all2_refl keeps_NaN_refl)
next
  case (Cons c cs)
  have "list_all2 keeps_NaN (vehicles s) (vehicles (run cs (perform c s)))"
    using perform_keeps_NaN Cons.IH
    by (rule list_all2_trans [rotated]) (rule keeps_NaN_trans)
  then show ?case by simp
qed

lemma find_keeps_NaN:
  "list_all2 keeps_NaN vs vs' \<Longrightarrow> find (\<lambda>v. v_id v = k) vs = Some v \<Longrightarrow>
     \<exists>v'. find (\<lambda>v. v_id v = k) vs' = Some v' \<and> keeps_NaN v v'"
proof (induction vs vs' rule: list_all2_induct)
  case Nil
  then show ?case by simp
next
  case (Cons x xs y ys)
  then show ?case
    by (cases "v_id x = k") (auto simp: keeps_NaN_def)
qed

lemma NaN_total_stays:
  assumes "getVehicle k s = Some v"
  shows "totalFuelConsumed v = NaN \<Longrightarrow>
           map_option totalFuelConsumed (getVehicle k (run cs s)) = Some NaN"
    and "totalDistance v = NaN \<Longrightarrow>
           map_option totalDistance (getVehicle k (run cs s)) = Some NaN"
  using find_keeps_NaN [OF run_keeps_NaN, of k s v cs] assms
  by (auto simp: getVehicle_def keeps_NaN_def)

text \<open>
  Claim C10. When \<^verbatim>\<open>updateRecord\<close> is given a fuel amount (or a distance) that
  \<^verbatim>\<open>parseFloat\<close> turns into NaN, for an existing record whose vehicle exists, it raises
  nothing: the field of the record becomes NaN, the total fuel (the total distance) of the
  owning vehicle becomes NaN, and it is NaN still after every later sequence of
  \<^verbatim>\<open>recordFuelConsumption\<close>, \<^verbatim>\<open>updateRecord\<close> and \<^verbatim>\<open>deleteRecord\<close> calls.
\<close>

theorem NaN_update_poisons_total:
  "findIndex (\<lambda>r. r_id r = recordId) (fuelRecords s) = Some i \<longrightarrow>
   getVehicle (vehicleId (fuelRecords s ! i)) s \<noteq> None \<longrightarrow>
     (case updateRecord recordId u s of
        Inl err \<Rightarrow> False
      | Inr (s', r) \<Rightarrow>
          (\<forall>x. u_fuelAmount u = Some x \<and> parseFloat x = NaN \<longrightarrow>
             fuelAmount r = NaN \<and>
             (\<forall>cs. map_option totalFuelConsumed (getVehicle (vehicleId r) (run cs s'))
                     = Some NaN)) \<and>
          (\<forall>x. u_distance u = Some x \<and> parseFloat x = NaN \<longrightarrow>
             distance r = NaN \<and>
             (\<forall>cs. map_option totalDistance (getVehicle (vehicleId r) (run cs s'))
                     = Some NaN)))"
proof (intro impI)
  assume i: "findIndex (\<lambda>r. r_id r = recordId) (fuelRecords s) = Some i"
    and "getVehicle (vehicleId (fuelRecords s ! i)) s \<noteq> None"
  then obtain v where v: "getVehicle (vehicleId (fuelRecords s ! i)) s = Some v"
    by auto
  obtain s' r where res: "updateRecord recordId u s = Inr (s', r)"
    by (simp add: updateRecord_def i Let_def)
  let ?old = "fuelRecords s ! i"
  from res have r: "r = recalculate (patch u ?old)"
    by (auto simp: updateRecord_def i Let_def)
  have owner: "getVehicle (vehicleId r) s' =
      Some (v\<lparr> totalDistance := jsadd (jssub (totalDistance v) (distance ?old)) (distance r),
               totalFuelConsumed :=
                 jsadd (jssub (totalFuelConsumed v) (fuelAmount ?old)) (fuelAmount r) \<rparr>)"
    using res v
    by (auto simp: updateRecord_def i Let_def getVehicle_def find_update_first_same
        recalculate_fields patch_fields)
  have fuel: "fuelAmount r = NaN \<and>
      (\<forall>cs. map_option totalFuelConsumed (getVehicle (vehicleId r) (run cs s')) = Some NaN)"
    if "u_fuelAmount u = Some x \<and> parseFloat x = NaN" for x
  proof -
    from that have "fuelAmount r = NaN"
      by (simp add: r recalculate_fields patch_fields)
    then show ?thesis
      using NaN_total_stays(1) [OF owner] by (simp add: jsadd_NaN_right)
  qed
  have km: "distance r = NaN \<and>
      (\<forall>cs. map_option totalDistance (getVehicle (vehicleId r) (run cs s')) = Some NaN)"
    if "u_distance u = Some x \<and> parseFloat x = NaN" for x
  proof -
    from that have "distance r = NaN"
      by (simp add: r recalculate_fields patch_fields)
    then show ?thesis
      using NaN_total_stays(2) [OF owner] by (simp add: jsadd_NaN_right)
  qed
  from fuel km show "case updateRecord recordId u s of
        Inl err \<Rightarrow> False
      | Inr (s', r) \<Rightarrow>
          (\<forall>x. u_fuelAmount u = Some x \<and> parseFloat x = NaN \<longrightarrow>
             fuelAmount r = NaN \<and>
             (\<forall>cs. map_option totalFuelConsumed (getVehicle (vehicleId r) (run cs s'))
                     = Some NaN)) \<and>
          (\<forall>x. u_distance u = Some x \<and> parseFloat x = NaN \<longrightarrow>
             distance r = NaN \<and>
             (\<forall>cs. map_option totalDistance (getVehicle (vehicleId r) (run cs s'))
                     = Some NaN))"
    unfolding res by (simp only: sum.case prod.case) blast
qed

theorem NaN_update_poisons_total_witness:
  "findIndex (\<lambda>r. r_id r = ''1700000000000-abc123def'') (fuelRecords one_entry) = Some 0 \<and>
   getVehicle (vehicleId (fuelRecords one_entry ! 0)) one_entry \<noteq> None \<and>
   parseFloat NaN = NaN \<and>
   (case updateRecord ''1700000000000-abc123def''
           (no_updates\<lparr> u_fuelAmount := Some NaN \<rparr>) one_entry of
      Inl err \<Rightarrow> False
    | Inr (s', r) \<Rightarrow>
        fuelAmount r = NaN \<and>
        map_option totalFuelConsumed (getVehicle ''v1'' s') = Some NaN \<and>
        map_option totalFuelConsumed
          (getVehicle ''v1''
             (run [UpdateRecord ''1700000000000-abc123def''
                     (no_updates\<lparr> u_fuelAmount := Some (Fin 10) \<rparr>),
                   DeleteRecord ''1700000000000-abc123def''] s')) = Some NaN)"
  using NaN_update_poisons_total
    [of "''1700000000000-abc123def''" one_entry 0
      "no_updates\<lparr> u_fuelAmount := Some NaN \<rparr>"]
  by (simp add: one_entry_eq updateRecord_def deleteRecord_def perform_def no_updates_def
      patch_def recalculate_def jssub_def Let_def parseFloat_def getVehicle_def
      rnd_numeral rnd_zero splice1_def)

section \<open>The aggregate invariant\<close>

subsection \<open>Sums of whole numbers are exact\<close>

lemma whole_amount: "whole x \<Longrightarrow> x = Fin (of_nat (amount x))"
  by (cases x) (auto simp: whole_def amount_def)

lemma rnd_nat: "n < 2 ^ 53 \<Longrightarrow> rnd (of_nat n) = Fin (of_nat n)"
proof -
  assume "n < 2 ^ 53"
  then have "int n < int (2 ^ 53)"
    by (simp only: of_nat_less_iff)
  then have "int n < 2 ^ 53"
    by simp
  then have "\<bar>int n\<bar> < 2 ^ 53"
    by simp
  from rnd_int [OF this] show ?thesis
    by simp
qed

lemma jsadd_nat:
  assumes "a + b < 2 ^ 53"
  shows "jsadd (Fin (of_nat a)) (Fin (of_nat b)) = Fin (of_nat (a + b))"
proof -
  have "jsadd (Fin (of_nat a)) (Fin (of_nat b)) = rnd (of_nat a + of_nat b)"
    by (simp only: jsadd.simps)
  also have "(of_nat a + of_nat b :: rat) = of_nat (a + b)"
    by (simp only: of_nat_add)
  finally show ?thesis
    by (simp only: rnd_nat [OF assms])
qed

lemma jssub_nat:
  assumes "b \<le> a" "a < 2 ^ 53"
  shows "jssub (Fin (of_nat a)) (Fin (of_nat b)) = Fin (of_nat (a - b))"
proof -
  have small: "a - b < 2 ^ 53"
    using assms(2) by (rule le_less_trans [OF diff_le_self])
  have "jssub (Fin (of_nat a)) (Fin (of_nat b)) = rnd (of_nat a + - of_nat b)"
    by (simp only: jssub_def neg.simps jsadd.simps)
  also have "(of_nat a + - of_nat b :: rat) = of_nat (a - b)"
    by (simp only: of_nat_diff [OF assms(1)] add_uminus_conv_diff)
  finally show ?thesis
    by (simp only: rnd_nat [OF small])
qed

lemma whole_cases:
  assumes "whole x"
  obtains n where "x = Fin (of_nat n)" and "amount x = n"
  using assms whole_amount by blast

lemma foldl_jsadd_exact:
  "list_all (\<lambda>r. whole (g r)) rs \<Longrightarrow> a + sum_list (map (\<lambda>r. amount (g r)) rs) < 2 ^ 53 \<Longrightarrow>
     foldl (\<lambda>sum r. jsadd sum (g r)) (Fin (of_nat a)) rs
       = Fin (of_nat (a + sum_list (map (\<lambda>r. amount (g r)) rs)))"
proof (induction rs arbitrary: a)
  case Nil
  then show ?case by simp
next
  case (Cons r rs)
  from Cons.prems(1) have "whole (g r)"
    by simp
  then obtain n where n: "g r = Fin (of_nat n)" "amount (g r) = n"
    by (rule whole_cases)
  have small: "a + n < 2 ^ 53"
    using Cons.prems(2) n(2) by simp
  have "foldl (\<lambda>sum r. jsadd sum (g r)) (Fin (of_nat a)) (r # rs)
      = foldl (\<lambda>sum r. jsadd sum (g r)) (jsadd (Fin (of_nat a)) (Fin (of_nat n))) rs"
    by (simp add: n(1))
  also have "\<dots> = foldl (\<lambda>sum r. jsadd sum (g r)) (Fin (of_nat (a + n))) rs"
    by (simp only: jsadd_nat [OF small])
  also have "\<dots> = Fin (of_nat (a + n + sum_list (map (\<lambda>r. amount (g r)) rs)))"
  proof (rule Cons.IH)
    show "list_all (\<lambda>r. whole (g r)) rs"
      using Cons.prems(1) by simp
    show "a + n + sum_list (map (\<lambda>r. amount (g r)) rs) < 2 ^ 53"
      using Cons.prems(2) n(2) by (simp add: add.assoc)
  qed
  finally show ?case
    by (simp add: n(2) add.assoc)
qed

lemma sum_list_filter_le:
  "sum_list (map f (filter P xs)) \<le> sum_list (map (f :: 'a \<Rightarrow> nat) xs)"
  by (induction xs) auto


lemma part_le: "part k g rs \<le> sum_list (map (\<lambda>r. amount (g r)) rs)"
  unfolding part_def by (rule sum_list_filter_le)

lemma jseq_Fin: "jseq x (Fin q) \<longleftrightarrow> x = Fin q"
  by (cases x) auto

lemma foldl_part:
  assumes "list_all (\<lambda>r. whole (g r)) rs"
    and "sum_list (map (\<lambda>r. amount (g r)) rs) < 2 ^ 53"
  shows "foldl (\<lambda>sum r. jsadd sum (g r)) (Fin 0) (filter (\<lambda>r. vehicleId r = k) rs)
       = Fin (of_nat (part k g rs))"
proof -
  let ?rs = "filter (\<lambda>r. vehicleId r = k) rs"
  have w: "list_all (\<lambda>r. whole (g r)) ?rs"
    using assms(1) by (simp add: list_all_iff)
  have "sum_list (map (\<lambda>r. amount (g r)) ?rs) < 2 ^ 53"
    using sum_list_filter_le assms(2) by (rule le_less_trans)
  then have b: "0 + sum_list (map (\<lambda>r. amount (g r)) ?rs) < 2 ^ 53"
    by (simp only: add_0)
  have "foldl (\<lambda>sum r. jsadd sum (g r)) (Fin (of_nat 0)) ?rs
      = Fin (of_nat (0 + sum_list (map (\<lambda>r. amount (g r)) ?rs)))"
    using w b by (rule foldl_jsadd_exact)
  then show ?thesis
    by (simp add: part_def)
qed

lemma aggregates_ok_exact: "exact_range s \<Longrightarrow> aggregates_ok s = exact_totals s"
  by (simp add: aggregates_ok_def exact_totals_def totalKm_def totalLiters_def
      getVehicleRecords_def exact_range_def foldl_part jseq_Fin list_all_iff)

subsection \<open>The sum of one vehicle after a change of the records\<close>

lemma update_first_distinct:
  "distinct (map v_id vs) \<Longrightarrow>
     update_first (\<lambda>v. v_id v = k) F vs = map (\<lambda>v. if v_id v = k then F v else v) vs"
proof (induction vs)
  case Nil
  then show ?case by simp
next
  case (Cons x xs)
  show ?case
  proof (cases "v_id x = k")
    case True
    with Cons.prems have "k \<notin> set (map v_id xs)"
      by simp
    then have "\<forall>v\<in>set xs. v_id v \<noteq> k"
      by (auto simp: image_iff)
    then have "map (\<lambda>v. if v_id v = k then F v else v) xs = xs"
      by (simp add: map_idI)
    with True show ?thesis by simp
  next
    case False
    with Cons show ?thesis by simp
  qed
qed

lemma map_v_id_update_first:
  "(\<And>v. v_id (F v) = v_id v) \<Longrightarrow> map v_id (update_first P F vs) = map v_id vs"
  by (induction vs) auto

lemma part_app: "part k g (xs @ ys) = part k g xs + part k g ys"
  by (simp add: part_def)

lemma part_Cons:
  "part k g (x # xs) = (if vehicleId x = k then amount (g x) else 0) + part k g xs"
  by (simp add: part_def)

lemma part_append:
  "part k g (rs @ [r]) = part k g rs + (if vehicleId r = k then amount (g r) else 0)"
  by (simp add: part_def)

lemma part_split:
  assumes "i < length rs"
  shows "part k g rs =
      part k g (take i rs) + (if vehicleId (rs ! i) = k then amount (g (rs ! i)) else 0)
        + part k g (drop (Suc i) rs)"
proof -
  have "part k g rs = part k g (take i rs @ rs ! i # drop (Suc i) rs)"
    by (simp only: id_take_nth_drop [OF assms, symmetric])
  then show ?thesis
    by (simp only: part_app part_Cons add.assoc)
qed

lemma part_list_update:
  assumes "i < length rs"
  shows "part k g (rs[i := y]) + (if vehicleId (rs ! i) = k then amount (g (rs ! i)) else 0)
       = part k g rs + (if vehicleId y = k then amount (g y) else 0)"
proof -
  have "part k g (rs[i := y]) =
      part k g (take i rs) + (if vehicleId y = k then amount (g y) else 0)
        + part k g (drop (Suc i) rs)"
    by (simp only: upd_conv_take_nth_drop [OF assms] part_app part_Cons add.assoc)
  with part_split [OF assms, of k g] show ?thesis
    by (simp only: add.assoc add.left_commute add.commute)
qed

lemma part_splice1:
  assumes "i < length rs"
  shows "part k g (splice1 i rs) + (if vehicleId (rs ! i) = k then amount (g (rs ! i)) else 0)
       = part k g rs"
proof -
  have "part k g (splice1 i rs) = part k g (take i rs) + part k g (drop (Suc i) rs)"
    by (simp only: splice1_def part_app)
  with part_split [OF assms, of k g] show ?thesis
    by (simp only: add.assoc add.left_commute add.commute)
qed

lemma total_after_append:
  assumes "whole (g r)" and "sum_list (map (\<lambda>r. amount (g r)) (rs @ [r])) < 2 ^ 53"
    and "vehicleId r = k"
  shows "jsadd (Fin (of_nat (part k g rs))) (g r) = Fin (of_nat (part k g (rs @ [r])))"
proof -
  from assms(1) obtain n where n: "g r = Fin (of_nat n)" "amount (g r) = n"
    by (rule whole_cases)
  have p: "part k g (rs @ [r]) = part k g rs + n"
    using assms(3) n(2) by (simp add: part_append)
  have "part k g (rs @ [r]) < 2 ^ 53"
    using part_le assms(2) by (rule le_less_trans)
  then have "part k g rs + n < 2 ^ 53"
    by (simp only: p)
  then show ?thesis
    by (simp only: n(1) p jsadd_nat)
qed

lemma total_after_splice1:
  assumes "i < length rs" and "vehicleId (rs ! i) = k" and "whole (g (rs ! i))"
    and "sum_list (map (\<lambda>r. amount (g r)) rs) < 2 ^ 53"
  shows "jssub (Fin (of_nat (part k g rs))) (g (rs ! i))
       = Fin (of_nat (part k g (splice1 i rs)))"
proof -
  from assms(3) obtain n where n: "g (rs ! i) = Fin (of_nat n)" "amount (g (rs ! i)) = n"
    by (rule whole_cases)
  have p: "part k g (splice1 i rs) + n = part k g rs"
    using part_splice1 [OF assms(1), of k g] assms(2) n(2) by simp
  then have le: "n \<le> part k g rs"
    by linarith
  have small: "part k g rs < 2 ^ 53"
    using part_le assms(4) by (rule le_less_trans)
  from p have "part k g rs - n = part k g (splice1 i rs)"
    by linarith
  then show ?thesis
    by (simp only: n(1) jssub_nat [OF le small])
qed

lemma total_after_list_update:
  assumes "i < length rs" and "vehicleId (rs ! i) = k" and "vehicleId y = k"
    and "whole (g (rs ! i))" and "whole (g y)"
    and "sum_list (map (\<lambda>r. amount (g r)) rs) < 2 ^ 53"
    and "sum_list (map (\<lambda>r. amount (g r)) (rs[i := y])) < 2 ^ 53"
  shows "jsadd (jssub (Fin (of_nat (part k g rs))) (g (rs ! i))) (g y)
       = Fin (of_nat (part k g (rs[i := y])))"
proof -
  from assms(4) obtain a where a: "g (rs ! i) = Fin (of_nat a)" "amount (g (rs ! i)) = a"
    by (rule whole_cases)
  from assms(5) obtain b where b: "g y = Fin (of_nat b)" "amount (g y) = b"
    by (rule whole_cases)
  have p: "part k g (rs[i := y]) + a = part k g rs + b"
    using part_list_update [OF assms(1), of k g y] assms(2,3) a(2) b(2) by simp
  have "part k g (splice1 i rs) + a = part k g rs"
    using part_splice1 [OF assms(1), of k g] assms(2) a(2) by simp
  then have le: "a \<le> part k g rs"
    by linarith
  have small: "part k g rs < 2 ^ 53"
    using part_le assms(6) by (rule le_less_trans)
  have small': "part k g (rs[i := y]) < 2 ^ 53"
    using part_le assms(7) by (rule le_less_trans)
  from p le have eq: "part k g rs - a + b = part k g (rs[i := y])"
    by linarith
  with small' have "part k g rs - a + b < 2 ^ 53"
    by (simp only:)
  then have "jsadd (Fin (of_nat (part k g rs - a))) (Fin (of_nat b))
      = Fin (of_nat (part k g rs - a + b))"
    by (rule jsadd_nat)
  then show ?thesis
    by (simp only: a(1) b(1) jssub_nat [OF le small] eq)
qed

lemma part_append_other: "vehicleId r \<noteq> k \<Longrightarrow> part k g (rs @ [r]) = part k g rs"
  by (simp add: part_append)

lemma part_list_update_other:
  "i < length rs \<Longrightarrow> vehicleId (rs ! i) \<noteq> k \<Longrightarrow> vehicleId y \<noteq> k \<Longrightarrow>
     part k g (rs[i := y]) = part k g rs"
  using part_list_update [of i rs k g y] by simp

lemma part_splice1_other:
  "i < length rs \<Longrightarrow> vehicleId (rs ! i) \<noteq> k \<Longrightarrow> part k g (splice1 i rs) = part k g rs"
  using part_splice1 [of i rs k g] by simp

subsection \<open>Each call keeps the exact totals\<close>

lemma exact_range_fields:
  assumes "exact_range s"
  shows "sum_list (map (\<lambda>r. amount (distance r)) (fuelRecords s)) < 2 ^ 53"
    and "sum_list (map (\<lambda>r. amount (fuelAmount r)) (fuelRecords s)) < 2 ^ 53"
    and "r \<in> set (fuelRecords s) \<Longrightarrow> whole (distance r)"
    and "r \<in> set (fuelRecords s) \<Longrightarrow> whole (fuelAmount r)"
  using assms by (simp_all add: exact_range_def list_all_iff)

lemma record_exact_totals:
  assumes ok: "exact_totals s" and d: "distinct (map v_id (vehicles s))"
    and range:
      "exact_range (perform (RecordFuelConsumption vid fuel_arg distance_arg date_arg notes_arg e) s)"
  shows "exact_totals (perform (RecordFuelConsumption vid fuel_arg distance_arg date_arg notes_arg e) s)"
proof (cases "find (\<lambda>v. v_id v = vid) (vehicles s)")
  case None
  then have "perform (RecordFuelConsumption vid fuel_arg distance_arg date_arg notes_arg e) s = s"
    by (simp add: perform_def recordFuelConsumption_def)
  with ok show ?thesis
    by simp
next
  case (Some v0)
  let ?s' = "perform (RecordFuelConsumption vid fuel_arg distance_arg date_arg notes_arg e) s"
  let ?rs = "fuelRecords s"
  define r where "r = \<lparr> r_id = generated_id e, vehicleId = vid,
      fuelAmount = parseFloat fuel_arg, distance = parseFloat distance_arg,
      consumption = toFixed2 (jsdiv distance_arg fuel_arg),
      date = (case date_arg of None \<Rightarrow> now_date e
              | Some d \<Rightarrow> if d = [] then now_date e else d),
      r_notes = (case notes_arg of None \<Rightarrow> [] | Some n \<Rightarrow> n),
      r_createdAt = now_created e \<rparr>"
  let ?F = "\<lambda>v. v\<lparr> totalDistance := jsadd (totalDistance v) (distance r),
                     totalFuelConsumed := jsadd (totalFuelConsumed v) (fuelAmount r) \<rparr>"
  have p: "?s' = s\<lparr> fuelRecords := ?rs @ [r],
                     vehicles := update_first (\<lambda>v. v_id v = vid) ?F (vehicles s) \<rparr>"
    by (simp add: perform_def recordFuelConsumption_def Some Let_def r_def)
  have rs': "fuelRecords ?s' = ?rs @ [r]"
    by (simp add: p)
  have "vehicles ?s' = update_first (\<lambda>v. v_id v = vid) ?F (vehicles s)"
    by (simp add: p)
  also have "\<dots> = map (\<lambda>v. if v_id v = vid then ?F v else v) (vehicles s)"
    using d by (rule update_first_distinct)
  finally have vs': "vehicles ?s' = map (\<lambda>v. if v_id v = vid then ?F v else v) (vehicles s)" .
  have vid: "vehicleId r = vid"
    by (simp add: r_def)
  have r_in: "r \<in> set (fuelRecords ?s')"
    by (simp add: rs')
  note w = exact_range_fields(3,4) [OF range r_in]
  note b = exact_range_fields(1,2) [OF range, unfolded rs']
  let ?Q = "\<lambda>w. totalDistance w = Fin (of_nat (part (v_id w) distance (?rs @ [r]))) \<and>
                 totalFuelConsumed w = Fin (of_nat (part (v_id w) fuelAmount (?rs @ [r])))"
  have "?Q (if v_id v = vid then ?F v else v)" if v: "v \<in> set (vehicles s)" for v
  proof -
    from ok v have old: "totalDistance v = Fin (of_nat (part (v_id v) distance ?rs))"
      "totalFuelConsumed v = Fin (of_nat (part (v_id v) fuelAmount ?rs))"
      by (simp_all add: exact_totals_def list_all_iff)
    show ?thesis
    proof (cases "v_id v = vid")
      case True
      with old total_after_append [OF w(1) b(1) vid] total_after_append [OF w(2) b(2) vid]
      show ?thesis by simp
    next
      case False
      with old vid show ?thesis by (simp add: part_append_other)
    qed
  qed
  then have "list_all (\<lambda>v. ?Q (if v_id v = vid then ?F v else v)) (vehicles s)"
    by (simp only: list_all_iff) blast
  then have "list_all ?Q (map (\<lambda>v. if v_id v = vid then ?F v else v) (vehicles s))"
    by (simp only: list.pred_map comp_def)
  then show ?thesis
    unfolding exact_totals_def vs' rs' .
qed

lemma exact_totalsD:
  assumes "exact_totals s" and "v \<in> set (vehicles s)"
  shows "totalDistance v = Fin (of_nat (part (v_id v) distance (fuelRecords s)))"
    and "totalFuelConsumed v = Fin (of_nat (part (v_id v) fuelAmount (fuelRecords s)))"
  using assms by (simp_all add: exact_totals_def list_all_iff)

lemma exact_totals_mapI:
  assumes vs: "vehicles s' = map h (vehicles s)"
    and each: "\<And>v. v \<in> set (vehicles s) \<Longrightarrow>
      totalDistance (h v) = Fin (of_nat (part (v_id (h v)) distance (fuelRecords s'))) \<and>
      totalFuelConsumed (h v) = Fin (of_nat (part (v_id (h v)) fuelAmount (fuelRecords s')))"
  shows "exact_totals s'"
proof -
  let ?Q = "\<lambda>w. totalDistance w = Fin (of_nat (part (v_id w) distance (fuelRecords s'))) \<and>
                 totalFuelConsumed w = Fin (of_nat (part (v_id w) fuelAmount (fuelRecords s')))"
  from each have "list_all (\<lambda>v. ?Q (h v)) (vehicles s)"
    by (simp only: list_all_iff) blast
  then have "list_all ?Q (map h (vehicles s))"
    by (simp only: list.pred_map comp_def)
  then show ?thesis
    unfolding exact_totals_def vs .
qed

lemma update_exact_totals:
  assumes ok: "exact_totals s" and d: "distinct (map v_id (vehicles s))"
    and range0: "exact_range s"
    and range: "exact_range (perform (UpdateRecord recordId u) s)"
  shows "exact_totals (perform (UpdateRecord recordId u) s)"
proof (cases "findIndex (\<lambda>r. r_id r = recordId) (fuelRecords s)")
  case None
  then have "perform (UpdateRecord recordId u) s = s"
    by (simp add: perform_def updateRecord_def)
  with ok show ?thesis
    by simp
next
  case (Some i)
  let ?s' = "perform (UpdateRecord recordId u) s"
  let ?rs = "fuelRecords s"
  define old where "old = ?rs ! i"
  define new where "new = recalculate (patch u old)"
  define k where "k = vehicleId old"
  let ?F = "\<lambda>v. v\<lparr> totalDistance := jsadd (jssub (totalDistance v) (distance old)) (distance new),
                     totalFuelConsumed :=
                       jsadd (jssub (totalFuelConsumed v) (fuelAmount old)) (fuelAmount new) \<rparr>"
  have i: "i < length ?rs"
    using findIndex_Some [OF Some] by simp
  have k': "vehicleId new = k"
    by (simp add: new_def k_def recalculate_fields patch_fields)
  have p: "?s' = s\<lparr> fuelRecords := ?rs[i := new],
                     vehicles := update_first (\<lambda>v. v_id v = k) ?F (vehicles s) \<rparr>"
    by (simp add: perform_def updateRecord_def Some Let_def old_def [symmetric]
        new_def [symmetric] k')
  have rs': "fuelRecords ?s' = ?rs[i := new]"
    by (simp add: p)
  have "vehicles ?s' = update_first (\<lambda>v. v_id v = k) ?F (vehicles s)"
    by (simp add: p)
  also have "\<dots> = map (\<lambda>v. if v_id v = k then ?F v else v) (vehicles s)"
    using d by (rule update_first_distinct)
  finally have vs': "vehicles ?s' = map (\<lambda>v. if v_id v = k then ?F v else v) (vehicles s)" .
  have "old \<in> set ?rs"
    using i by (simp add: old_def)
  note w_old = exact_range_fields(3,4) [OF range0 this]
  have "new \<in> set (fuelRecords ?s')"
    unfolding rs' using i by (rule set_update_memI)
  note w_new = exact_range_fields(3,4) [OF range this]
  note b = exact_range_fields(1,2) [OF range0]
  note b' = exact_range_fields(1,2) [OF range, unfolded rs']
  have km: "jsadd (jssub (Fin (of_nat (part k distance ?rs))) (distance old)) (distance new)
      = Fin (of_nat (part k distance (?rs[i := new])))"
    using total_after_list_update [OF i _ k' _ w_new(1) b(1) b'(1)] w_old(1)
    by (simp add: old_def k_def)
  have liters:
    "jsadd (jssub (Fin (of_nat (part k fuelAmount ?rs))) (fuelAmount old)) (fuelAmount new)
      = Fin (of_nat (part k fuelAmount (?rs[i := new])))"
    using total_after_list_update [OF i _ k' _ w_new(2) b(2) b'(2)] w_old(2)
    by (simp add: old_def k_def)
  show ?thesis
  proof (rule exact_totals_mapI [OF vs'])
    fix v
    assume v: "v \<in> set (vehicles s)"
    note t = exact_totalsD [OF ok v]
    show "totalDistance (if v_id v = k then ?F v else v) =
        Fin (of_nat (part (v_id (if v_id v = k then ?F v else v)) distance (fuelRecords ?s'))) \<and>
      totalFuelConsumed (if v_id v = k then ?F v else v) =
        Fin (of_nat (part (v_id (if v_id v = k then ?F v else v)) fuelAmount (fuelRecords ?s')))"
    proof (cases "v_id v = k")
      case True
      with t km liters show ?thesis
        by (simp add: rs')
    next
      case False
      then have "part (v_id v) g (?rs[i := new]) = part (v_id v) g ?rs" for g
        using i k' by (intro part_list_update_other) (simp_all add: old_def [symmetric] k_def)
      with t False show ?thesis
        by (simp add: rs')
    qed
  qed
qed

lemma delete_exact_totals:
  assumes ok: "exact_totals s" and d: "distinct (map v_id (vehicles s))"
    and range0: "exact_range s"
  shows "exact_totals (perform (DeleteRecord recordId) s)"
proof (cases "findIndex (\<lambda>r. r_id r = recordId) (fuelRecords s)")
  case None
  then have "perform (DeleteRecord recordId) s = s"
    by (simp add: perform_def deleteRecord_def)
  with ok show ?thesis
    by simp
next
  case (Some i)
  let ?s' = "perform (DeleteRecord recordId) s"
  let ?rs = "fuelRecords s"
  define old where "old = ?rs ! i"
  define k where "k = vehicleId old"
  let ?F = "\<lambda>v. v\<lparr> totalDistance := jssub (totalDistance v) (distance old),
                     totalFuelConsumed := jssub (totalFuelConsumed v) (fuelAmount old) \<rparr>"
  have i: "i < length ?rs"
    using findIndex_Some [OF Some] by simp
  have p: "?s' = s\<lparr> vehicles := update_first (\<lambda>v. v_id v = k) ?F (vehicles s),
                     fuelRecords := splice1 i ?rs \<rparr>"
    by (simp add: perform_def deleteRecord_def Some Let_def old_def [symmetric] k_def)
  have rs': "fuelRecords ?s' = splice1 i ?rs"
    by (simp add: p)
  have "vehicles ?s' = update_first (\<lambda>v. v_id v = k) ?F (vehicles s)"
    by (simp add: p)
  also have "\<dots> = map (\<lambda>v. if v_id v = k then ?F v else v) (vehicles s)"
    using d by (rule update_first_distinct)
  finally have vs': "vehicles ?s' = map (\<lambda>v. if v_id v = k then ?F v else v) (vehicles s)" .
  have "old \<in> set ?rs"
    using i by (simp add: old_def)
  note w_old = exact_range_fields(3,4) [OF range0 this]
  note b = exact_range_fields(1,2) [OF range0]
  have km: "jssub (Fin (of_nat (part k distance ?rs))) (distance old)
      = Fin (of_nat (part k distance (splice1 i ?rs)))"
    using total_after_splice1 [OF i _ _ b(1), of k] w_old(1)
    by (simp add: old_def k_def)
  have liters: "jssub (Fin (of_nat (part k fuelAmount ?rs))) (fuelAmount old)
      = Fin (of_nat (part k fuelAmount (splice1 i ?rs)))"
    using total_after_splice1 [OF i _ _ b(2), of k] w_old(2)
    by (simp add: old_def k_def)
  show ?thesis
  proof (rule exact_totals_mapI [OF vs'])
    fix v
    assume v: "v \<in> set (vehicles s)"
    note t = exact_totalsD [OF ok v]
    show "totalDistance (if v_id v = k then ?F v else v) =
        Fin (of_nat (part (v_id (if v_id v = k then ?F v else v)) distance (fuelRecords ?s'))) \<and>
      totalFuelConsumed (if v_id v = k then ?F v else v) =
        Fin (of_nat (part (v_id (if v_id v = k then ?F v else v)) fuelAmount (fuelRecords ?s')))"
    proof (cases "v_id v = k")
      case True
      with t km liters show ?thesis
        by (simp add: rs')
    next
      case False
      then have "part (v_id v) g (splice1 i ?rs) = part (v_id v) g ?rs" for g
        using i by (intro part_splice1_other) (simp_all add: old_def [symmetric] k_def)
      with t False show ?thesis
        by (simp add: rs')
    qed
  qed
qed

lemma perform_ids: "map v_id (vehicles (perform c s)) = map v_id (vehicles s)"
  by (cases c)
    (simp_all add: perform_def recordFuelConsumption_def updateRecord_def deleteRecord_def
      Let_def map_v_id_update_first split: option.splits)

lemma perform_exact_totals:
  assumes "exact_totals s" and "distinct (map v_id (vehicles s))"
    and "exact_range s" and "exact_range (perform c s)"
  shows "exact_totals (perform c s)"
proof (cases c)
  case (RecordFuelConsumption vid fuel_arg distance_arg date_arg notes_arg e)
  with assms show ?thesis
    by (simp only: record_exact_totals)
next
  case (UpdateRecord recordId u)
  with assms show ?thesis
    by (simp only: update_exact_totals)
next
  case (DeleteRecord recordId)
  with assms show ?thesis
    by (simp only: delete_exact_totals)
qed

lemma states_first: "list_all P (states cs s) \<Longrightarrow> P s"
  by (cases cs) simp_all

text \<open>
  Claim C1, as the code has it. In a tracker whose vehicle ids are pairwise distinct, the
  aggregate invariant is kept by every sequence of \<^verbatim>\<open>recordFuelConsumption\<close>,
  \<^verbatim>\<open>updateRecord\<close> and \<^verbatim>\<open>deleteRecord\<close> calls, provided every tracker on the way,
  from the first to the last, is in the exact range: the distances and fuel amounts of its
  records are whole numbers, and each of the two fields summed over all records stays
  below \<open>2^53\<close>.
\<close>

theorem aggregates_preserved:
  "aggregates_ok s \<Longrightarrow> distinct (map v_id (vehicles s)) \<Longrightarrow>
     list_all exact_range (states cs s) \<Longrightarrow> aggregates_ok (run cs s)"
proof (induction cs arbitrary: s)
  case Nil
  then show ?case by simp
next
  case (Cons c cs)
  from Cons.prems(3) have range: "exact_range s"
    and rest: "list_all exact_range (states cs (perform c s))"
    by simp_all
  from rest have range': "exact_range (perform c s)"
    by (rule states_first)
  from Cons.prems(1) range have "exact_totals s"
    by (simp only: aggregates_ok_exact)
  then have "exact_totals (perform c s)"
    using Cons.prems(2) range range' by (rule perform_exact_totals)
  with range' have "aggregates_ok (perform c s)"
    by (simp only: aggregates_ok_exact)
  moreover have "distinct (map v_id (vehicles (perform c s)))"
    using Cons.prems(2) by (simp only: perform_ids)
  ultimately have "aggregates_ok (run cs (perform c s))"
    using rest by (rule Cons.IH)
  then show ?case
    by simp
qed

theorem aggregates_preserved_witness:
  "aggregates_ok car_a \<and>
   distinct (map v_id (vehicles car_a)) \<and>
   list_all exact_range
     (states [RecordFuelConsumption ''v1'' (Fin 10) (Fin 150) None None env1,
              UpdateRecord ''1700000000000-abc123def'' (no_updates\<lparr> u_distance := Some (Fin 200) \<rparr>),
              DeleteRecord ''1700000000000-abc123def''] car_a) \<and>
   aggregates_ok
     (run [RecordFuelConsumption ''v1'' (Fin 10) (Fin 150) None None env1,
           UpdateRecord ''1700000000000-abc123def'' (no_updates\<lparr> u_distance := Some (Fin 200) \<rparr>),
           DeleteRecord ''1700000000000-abc123def''] car_a)"
  using aggregates_preserved
    [of car_a "[RecordFuelConsumption ''v1'' (Fin 10) (Fin 150) None None env1,
                UpdateRecord ''1700000000000-abc123def'' (no_updates\<lparr> u_distance := Some (Fin 200) \<rparr>),
                DeleteRecord ''1700000000000-abc123def'']"]
  by (simp add: aggregates_ok_def exact_range_def whole_def amount_def car_a_def
      addVehicle_def empty_tracker_def env1_def getVehicleRecords_def totalKm_def
      totalLiters_def perform_def recordFuelConsumption_def updateRecord_def
      deleteRecord_def no_updates_def patch_def recalculate_def jssub_def splice1_def
      Let_def parseFloat_def rnd_numeral toFixed2_numeral rnd_zero)

text \<open>
  The claim as the specification words it asks for neither condition. With two vehicles
  of the id \<^verbatim>\<open>v1\<close>, which \<^verbatim>\<open>addVehicle\<close> accepts, an entry is added to the totals of
  the first vehicle only, and the second keeps the total 0 beside a record of 150. And with
  distinct ids: after entries of 0.1 and 0.2 and the deletion of the first, the total
  distance is 0.30000000000000004 - 0.1 = 0.20000000000000004, and the record left has 0.2.
\<close>

theorem aggregates_counterexample:
  "aggregates_ok two_cars_one_id \<and>
   map totalDistance (vehicles after_duplicate) = [Fin 150, Fin 0] \<and>
   map distance (getVehicleRecords ''v1'' after_duplicate) = [Fin 150] \<and>
   \<not> aggregates_ok after_duplicate \<and>
   aggregates_ok car_a \<and>
   map totalDistance (vehicles after_tenths)
     = [Fin (7205759403792795 / 36028797018963968)] \<and>
   map distance (getVehicleRecords ''v1'' after_tenths)
     = [Fin (7205759403792794 / 36028797018963968)] \<and>
   \<not> aggregates_ok after_tenths"
proof -
  have dup: "after_duplicate =
      \<lparr> fuelRecords =
          [\<lparr> r_id = ''1700000000000-abc123def'', vehicleId = ''v1'', fuelAmount = Fin 10,
             distance = Fin 150, consumption = Fin 15, date = ''2023-11-14T22:13:20.000Z'',
             r_notes = [], r_createdAt = ''2023-11-14T22:13:20.000Z'' \<rparr>],
        vehicles =
          [\<lparr> v_id = ''v1'', name = ''Car A'', fuelType = ''petrol'',
             v_createdAt = ''2023-11-14T22:13:20.000Z'', totalDistance = Fin 150,
             totalFuelConsumed = Fin 10 \<rparr>,
           \<lparr> v_id = ''v1'', name = ''Car B'', fuelType = ''petrol'',
             v_createdAt = ''2023-11-14T22:13:20.000Z'', totalDistance = Fin 0,
             totalFuelConsumed = Fin 0 \<rparr>] \<rparr>"
    by (simp add: after_duplicate_def two_cars_one_id_def car_a_def addVehicle_def
        empty_tracker_def env1_def perform_def recordFuelConsumption_def Let_def
        parseFloat_def rnd_numeral toFixed2_numeral)
  have tenths_run: "after_tenths =
      \<lparr> fuelRecords =
          [\<lparr> r_id = ''1700000000001-xyz987uvw'', vehicleId = ''v1'', fuelAmount = Fin 1,
             distance = two_tenths, consumption = toFixed2 (jsdiv two_tenths (Fin 1)),
             date = ''2023-11-14T22:13:21.000Z'', r_notes = [],
             r_createdAt = ''2023-11-14T22:13:21.000Z'' \<rparr>],
        vehicles =
          [\<lparr> v_id = ''v1'', name = ''Car A'', fuelType = ''petrol'',
             v_createdAt = ''2023-11-14T22:13:20.000Z'',
             totalDistance = Fin (7205759403792795 / 36028797018963968),
             totalFuelConsumed = Fin 1 \<rparr>] \<rparr>"
    by (simp add: after_tenths_def car_a_def addVehicle_def empty_tracker_def env1_def
        env2_def perform_def recordFuelConsumption_def deleteRecord_def splice1_def
        jssub_Fin Let_def parseFloat_def rnd_numeral rnd_one tenths)
  show ?thesis
  proof (intro conjI)
    show "aggregates_ok two_cars_one_id"
      by (simp add: aggregates_ok_def two_cars_one_id_def car_a_def addVehicle_def Let_def
          empty_tracker_def getVehicleRecords_def totalKm_def totalLiters_def)
    show "map totalDistance (vehicles after_duplicate) = [Fin 150, Fin 0]"
      by (simp add: dup)
    show "map distance (getVehicleRecords ''v1'' after_duplicate) = [Fin 150]"
      by (simp add: dup getVehicleRecords_def)
    show "\<not> aggregates_ok after_duplicate"
      by (simp add: dup aggregates_ok_def getVehicleRecords_def totalKm_def totalLiters_def
          rnd_numeral)
    show "aggregates_ok car_a"
      by (simp add: aggregates_ok_def car_a_def addVehicle_def Let_def
          empty_tracker_def getVehicleRecords_def totalKm_def totalLiters_def)
    show "map totalDistance (vehicles after_tenths)
        = [Fin (7205759403792795 / 36028797018963968)]"
      by (simp add: tenths_run)
    show "map distance (getVehicleRecords ''v1'' after_tenths)
        = [Fin (7205759403792794 / 36028797018963968)]"
      by (simp add: tenths_run getVehicleRecords_def two_tenths_eq)
    show "\<not> aggregates_ok after_tenths"
      by (simp add: tenths_run aggregates_ok_def getVehicleRecords_def totalKm_def
          totalLiters_def tenths) (simp add: two_tenths_eq)
  qed
qed

section \<open>The average consumption\<close>

lemma totals_exact:
  assumes "exact_range s"
  shows "totalKm (getVehicleRecords vid s) = Fin (of_nat (part vid distance (fuelRecords s)))"
    and "totalLiters (getVehicleRecords vid s)
           = Fin (of_nat (part vid fuelAmount (fuelRecords s)))"
  using assms
  by (simp_all add: totalKm_def totalLiters_def getVehicleRecords_def exact_range_def
      foldl_part list_all_iff)

lemma toFixed2_zero: "toFixed2 (Fin 0) = Fin 0"
  using toFixed2_int [of 0] by simp

text \<open>
  Claim C8, as the code has it. \<^verbatim>\<open>getAverageConsumption\<close> returns 0 when the vehicle has
  no records. Otherwise it compares the summed fuel with zero: when the sum is a positive
  Number it returns the quotient of the summed distances by the summed fuel, rounded to
  two decimals; when the sum is zero, negative, NaN or negative infinity it returns 0.
  (When the sum is positive infinity the quotient is 0 for a finite summed distance and
  NaN otherwise.) Rounded to two decimals: for finite sums whose quotient is below
  \<open>10^21\<close> the result is the double nearest to a multiple of \<open>1/100\<close> that lies within
  \<open>1/200\<close> of the quotient. The sums are those of floating-point addition from left to
  right; in the exact range, whole numbers that stay below \<open>2^53\<close>, they are the sums of
  the natural numbers. In particular, after \<^verbatim>\<open>recordFuelConsumption("v1", 3, 100)\<close> the
  average is 33.33; after \<^verbatim>\<open>recordFuelConsumption("v1", 0, 150)\<close> the summed fuel is
  zero and the average is 0; and after \<^verbatim>\<open>recordFuelConsumption("v1", NaN, 100)\<close> the
  summed fuel is NaN and the average is 0.
\<close>

theorem getAverageConsumption_contract:
  "(getVehicleRecords vid s = [] \<longrightarrow> getAverageConsumption vid s = Fin 0) \<and>
   (getVehicleRecords vid s \<noteq> [] \<longrightarrow>
      getAverageConsumption vid s =
        (case totalLiters (getVehicleRecords vid s) of
           Fin l \<Rightarrow>
             if 0 < l then toFixed2 (jsdiv (totalKm (getVehicleRecords vid s)) (Fin l))
             else Fin 0
         | PInf \<Rightarrow>
             (case totalKm (getVehicleRecords vid s) of
                Fin k \<Rightarrow> Fin 0 | PInf \<Rightarrow> NaN | NInf \<Rightarrow> NaN | NaN \<Rightarrow> NaN)
         | NInf \<Rightarrow> Fin 0
         | NaN \<Rightarrow> Fin 0)) \<and>
   (\<forall>k l q. getVehicleRecords vid s \<noteq> [] \<longrightarrow>
      totalKm (getVehicleRecords vid s) = Fin k \<longrightarrow>
      totalLiters (getVehicleRecords vid s) = Fin l \<longrightarrow> 0 < l \<longrightarrow>
      rnd (k / l) = Fin q \<longrightarrow> \<bar>q\<bar> < 10 ^ 21 \<longrightarrow>
      (\<exists>n :: int. getAverageConsumption vid s = rnd (of_int n / 100) \<and>
                     \<bar>q - of_int n / 100\<bar> \<le> 1 / 200)) \<and>
   (exact_range s \<longrightarrow>
      totalKm (getVehicleRecords vid s) = Fin (of_nat (part vid distance (fuelRecords s))) \<and>
      totalLiters (getVehicleRecords vid s)
        = Fin (of_nat (part vid fuelAmount (fuelRecords s)))) \<and>
   getAverageConsumption ''v1'' thirds_entry = Fin (2345390243441541 / 70368744177664) \<and>
   getAverageConsumption ''v1'' zero_fuel_entry = Fin 0 \<and>
   getAverageConsumption ''v1'' nan_fuel_entry = Fin 0"
proof (intro conjI allI impI)
  assume "getVehicleRecords vid s = []"
  then show "getAverageConsumption vid s = Fin 0"
    by (simp add: getAverageConsumption_def)
next
  assume "getVehicleRecords vid s \<noteq> []"
  then show "getAverageConsumption vid s =
        (case totalLiters (getVehicleRecords vid s) of
           Fin l \<Rightarrow>
             if 0 < l then toFixed2 (jsdiv (totalKm (getVehicleRecords vid s)) (Fin l))
             else Fin 0
         | PInf \<Rightarrow>
             (case totalKm (getVehicleRecords vid s) of
                Fin k \<Rightarrow> Fin 0 | PInf \<Rightarrow> NaN | NInf \<Rightarrow> NaN | NaN \<Rightarrow> NaN)
         | NInf \<Rightarrow> Fin 0
         | NaN \<Rightarrow> Fin 0)"
    by (cases "totalLiters (getVehicleRecords vid s)";
        cases "totalKm (getVehicleRecords vid s)")
      (simp_all add: getAverageConsumption_def Let_def toFixed2_zero)
next
  fix k l q
  assume records: "getVehicleRecords vid s \<noteq> []"
    and km: "totalKm (getVehicleRecords vid s) = Fin k"
    and liters: "totalLiters (getVehicleRecords vid s) = Fin l"
    and positive: "0 < l"
    and quotient: "rnd (k / l) = Fin q" and small: "\<bar>q\<bar> < 10 ^ 21"
  from records km liters positive quotient
  have "getAverageConsumption vid s = toFixed2 (Fin q)"
    by (simp add: getAverageConsumption_def Let_def)
  with toFixed2_two_decimals [OF small]
  show "\<exists>n :: int. getAverageConsumption vid s = rnd (of_int n / 100) \<and>
                     \<bar>q - of_int n / 100\<bar> \<le> 1 / 200"
    by simp
next
  assume "exact_range s"
  then show "totalKm (getVehicleRecords vid s)
      = Fin (of_nat (part vid distance (fuelRecords s)))"
    by (rule totals_exact)
next
  assume "exact_range s"
  then show "totalLiters (getVehicleRecords vid s)
      = Fin (of_nat (part vid fuelAmount (fuelRecords s)))"
    by (rule totals_exact)
next
  have printed: "rnd (100 / 3) = Fin (4691249611844267 / 140737488355328)"
    "toFixed2 (Fin (4691249611844267 / 140737488355328))
       = Fin (2345390243441541 / 70368744177664)"
    by (simp_all add: toFixed2.simps(1) rounding)
  show "getAverageConsumption ''v1'' thirds_entry = Fin (2345390243441541 / 70368744177664)"
    by (simp add: thirds_entry_def perform_def recordFuelConsumption_def car_a_def
        addVehicle_def empty_tracker_def env1_def Let_def parseFloat_def
        getAverageConsumption_def getVehicleRecords_def totalLiters_def totalKm_def
        rnd_numeral printed)
next
  show "getAverageConsumption ''v1'' zero_fuel_entry = Fin 0"
    by (simp add: zero_fuel_entry_def recordFuelConsumption_def car_a_def
        addVehicle_def empty_tracker_def env1_def Let_def parseFloat_def
        getAverageConsumption_def getVehicleRecords_def totalLiters_def totalKm_def
        rnd_numeral rnd_zero)
next
  show "getAverageConsumption ''v1'' nan_fuel_entry = Fin 0"
    by (simp add: nan_fuel_entry_def perform_def recordFuelConsumption_def car_a_def
        addVehicle_def empty_tracker_def env1_def Let_def parseFloat_def
        getAverageConsumption_def getVehicleRecords_def totalLiters_def totalKm_def
        rnd_numeral)
qed

theorem getAverageConsumption_contract_witness:
  "getVehicleRecords ''v1'' car_a = [] \<and>
   getAverageConsumption ''v1'' car_a = Fin 0 \<and>
   getVehicleRecords ''v1'' one_entry \<noteq> [] \<and>
   exact_range one_entry \<and>
   totalKm (getVehicleRecords ''v1'' one_entry) = Fin 150 \<and>
   totalLiters (getVehicleRecords ''v1'' one_entry) = Fin 10 \<and>
   getAverageConsumption ''v1'' one_entry = Fin 15 \<and>
   getVehicleRecords ''v1'' thirds_entry \<noteq> [] \<and>
   totalKm (getVehicleRecords ''v1'' thirds_entry) = Fin 100 \<and>
   totalLiters (getVehicleRecords ''v1'' thirds_entry) = Fin 3 \<and>
   rnd (100 / 3) = Fin (4691249611844267 / 140737488355328) \<and>
   getAverageConsumption ''v1'' thirds_entry = Fin (2345390243441541 / 70368744177664) \<and>
   rnd (3333 / 100) = Fin (2345390243441541 / 70368744177664) \<and>
   \<bar>4691249611844267 / 140737488355328 - 3333 / 100 :: rat\<bar> \<le> 1 / 200 \<and>
   getVehicleRecords ''v1'' zero_fuel_entry \<noteq> [] \<and>
   totalKm (getVehicleRecords ''v1'' zero_fuel_entry) = Fin 150 \<and>
   totalLiters (getVehicleRecords ''v1'' zero_fuel_entry) = Fin 0 \<and>
   getAverageConsumption ''v1'' zero_fuel_entry = Fin 0 \<and>
   getVehicleRecords ''v1'' nan_fuel_entry \<noteq> [] \<and>
   totalKm (getVehicleRecords ''v1'' nan_fuel_entry) = Fin 100 \<and>
   totalLiters (getVehicleRecords ''v1'' nan_fuel_entry) = NaN \<and>
   getAverageConsumption ''v1'' nan_fuel_entry = Fin 0"
proof -
  have printed: "rnd (100 / 3) = Fin (4691249611844267 / 140737488355328)"
    "toFixed2 (Fin (4691249611844267 / 140737488355328))
       = Fin (2345390243441541 / 70368744177664)"
    "rnd (3333 / 100) = Fin (2345390243441541 / 70368744177664)"
    by (simp_all add: toFixed2.simps(1) rounding)
  from getAverageConsumption_contract [of "''v1''" car_a]
    getAverageConsumption_contract [of "''v1''" one_entry]
    getAverageConsumption_contract [of "''v1''" thirds_entry]
    getAverageConsumption_contract [of "''v1''" zero_fuel_entry]
    getAverageConsumption_contract [of "''v1''" nan_fuel_entry]
  show ?thesis
    by (simp add: one_entry_eq thirds_entry_def zero_fuel_entry_def nan_fuel_entry_def
        perform_def recordFuelConsumption_def car_a_def addVehicle_def empty_tracker_def
        env1_def Let_def parseFloat_def exact_range_def whole_def amount_def
        getAverageConsumption_def getVehicleRecords_def totalLiters_def totalKm_def
        rnd_numeral rnd_zero toFixed2_numeral printed)
qed

text \<open>
  The claim as the specification words it returns 0 only when the summed fuel is exactly
  zero. After \<^verbatim>\<open>recordFuelConsumption("v1", -5, 100)\<close> the summed fuel is \<open>-5\<close> and the
  rounded quotient is \<open>-20\<close>, and the function returns 0.
\<close>

theorem getAverageConsumption_counterexample:
  "getVehicleRecords ''v1'' negative_fuel \<noteq> [] \<and>
   totalLiters (getVehicleRecords ''v1'' negative_fuel) = Fin (- 5) \<and>
   totalKm (getVehicleRecords ''v1'' negative_fuel) = Fin 100 \<and>
   toFixed2 (jsdiv (Fin 100) (Fin (- 5))) = Fin (- 20) \<and>
   getAverageConsumption ''v1'' negative_fuel = Fin 0"
  by (simp add: getAverageConsumption_def getVehicleRecords_def negative_fuel_def
      recordFuelConsumption_def car_a_def addVehicle_def empty_tracker_def env1_def
      totalLiters_def totalKm_def parseFloat_def Let_def
      rnd_numeral rnd_neg_numeral toFixed2_neg_numeral)

section \<open>An update without changes\<close>

lemma take_put_back:
  assumes "whole_part x y"
  shows "jsadd (jssub y x) x = y"
proof -
  from assms have "whole x" "whole y"
    by (simp_all add: whole_part_def)
  then obtain a t where a: "x = Fin (of_nat a)" "amount x = a"
    and t: "y = Fin (of_nat t)" "amount y = t"
    by (metis whole_cases)
  from assms a(2) t(2) have le: "a \<le> t" and small: "t < 2 ^ 53"
    by (simp_all add: whole_part_def)
  from le small have "t - a + a < 2 ^ 53"
    by simp
  then have "jsadd (Fin (of_nat (t - a))) (Fin (of_nat a)) = Fin (of_nat (t - a + a))"
    by (rule jsadd_nat)
  with le show ?thesis
    by (simp only: a(1) t(1) jssub_nat [OF le small] le_add_diff_inverse2)
qed

lemma update_first_unchanged:
  "(\<And>x. find P xs = Some x \<Longrightarrow> f x = x) \<Longrightarrow> update_first P f xs = xs"
  by (induction xs) auto

lemma patch_no_updates: "patch no_updates r = r"
  by (simp add: patch_def no_updates_def)

lemma recalculate_current: "consumption_current r \<Longrightarrow> recalculate r = r"
  by (simp add: consumption_current_def recalculate_def split: if_splits)

lemma three_entries_eq:
  "three_entries =
     \<lparr> fuelRecords =
         [\<lparr> r_id = ''1700000000000-abc123def'', vehicleId = ''v1'', fuelAmount = Fin 1,
            distance = tenth, consumption = tenth, date = ''2023-11-14T22:13:20.000Z'',
            r_notes = [], r_createdAt = ''2023-11-14T22:13:20.000Z'' \<rparr>,
          \<lparr> r_id = ''1700000000001-xyz987uvw'', vehicleId = ''v1'', fuelAmount = Fin 1,
            distance = two_tenths, consumption = two_tenths,
            date = ''2023-11-14T22:13:21.000Z'', r_notes = [],
            r_createdAt = ''2023-11-14T22:13:21.000Z'' \<rparr>,
          \<lparr> r_id = ''1700000000002-klm456nop'', vehicleId = ''v1'', fuelAmount = Fin 1,
            distance = four_tenths, consumption = four_tenths,
            date = ''2023-11-14T22:13:22.000Z'', r_notes = [],
            r_createdAt = ''2023-11-14T22:13:22.000Z'' \<rparr>],
       vehicles =
         [\<lparr> v_id = ''v1'', name = ''Car A'', fuelType = ''petrol'',
            v_createdAt = ''2023-11-14T22:13:20.000Z'',
            totalDistance = Fin (6305039478318695 / 9007199254740992),
            totalFuelConsumed = Fin 3 \<rparr>] \<rparr>"
  by (simp add: three_entries_def car_a_def addVehicle_def empty_tracker_def env1_def
      env2_def env3_def perform_def recordFuelConsumption_def Let_def parseFloat_def
      rnd_numeral rnd_one tenths tenths_more tenths_consumption)

lemma zero_distance_entry_eq:
  "zero_distance_entry =
     \<lparr> fuelRecords =
         [\<lparr> r_id = ''1700000000000-abc123def'', vehicleId = ''v1'', fuelAmount = Fin 10,
            distance = Fin 0, consumption = Fin 15, date = ''2023-11-14T22:13:20.000Z'',
            r_notes = [], r_createdAt = ''2023-11-14T22:13:20.000Z'' \<rparr>],
       vehicles =
         [\<lparr> v_id = ''v1'', name = ''Car A'', fuelType = ''petrol'',
            v_createdAt = ''2023-11-14T22:13:20.000Z'', totalDistance = Fin 0,
            totalFuelConsumed = Fin 10 \<rparr>] \<rparr>"
  by (simp add: zero_distance_entry_def one_entry_eq perform_def updateRecord_def
      no_updates_def patch_def recalculate_def jssub_def Let_def parseFloat_def
      rnd_numeral rnd_zero)

lemma thirds_entry_eq:
  "thirds_entry =
     \<lparr> fuelRecords =
         [\<lparr> r_id = ''1700000000000-abc123def'', vehicleId = ''v1'', fuelAmount = Fin 3,
            distance = Fin 100, consumption = Fin (2345390243441541 / 70368744177664),
            date = ''2023-11-14T22:13:20.000Z'',
            r_notes = [], r_createdAt = ''2023-11-14T22:13:20.000Z'' \<rparr>],
       vehicles =
         [\<lparr> v_id = ''v1'', name = ''Car A'', fuelType = ''petrol'',
            v_createdAt = ''2023-11-14T22:13:20.000Z'', totalDistance = Fin 100,
            totalFuelConsumed = Fin 3 \<rparr>] \<rparr>"
  by (simp add: thirds_entry_def perform_def recordFuelConsumption_def car_a_def
      addVehicle_def empty_tracker_def env1_def Let_def parseFloat_def rnd_numeral thirds)

text \<open>
  Claim C9, as the code has it. For an existing record whose consumption is current
  (equal to the quotient rounded to two decimals when the distance and the fuel amount
  are both greater than zero), \<^verbatim>\<open>updateRecord\<close> with an empty patch returns the record
  as it was, every field of it, and leaves the array of records as it was. It leaves the
  whole tracker as it was, and with it the totals of the owning vehicle, when moreover
  the distance and the fuel amount can be taken out of the totals of the owning vehicle,
  if there is one, and put back without rounding: they and the totals are whole numbers,
  neither above its total, and the totals are below \<open>2^53\<close>.
\<close>

theorem empty_patch_changes_nothing:
  assumes found: "findIndex (\<lambda>r. r_id r = recordId) (fuelRecords s) = Some i"
    and current: "consumption_current (fuelRecords s ! i)"
  shows "case updateRecord recordId no_updates s of
           Inl err \<Rightarrow> False
         | Inr (s', r) \<Rightarrow>
             r = fuelRecords s ! i \<and>
             fuelRecords s' = fuelRecords s \<and>
             ((\<forall>v. getVehicle (vehicleId (fuelRecords s ! i)) s = Some v \<longrightarrow>
              whole_part (distance (fuelRecords s ! i)) (totalDistance v) \<and>
              whole_part (fuelAmount (fuelRecords s ! i)) (totalFuelConsumed v)) \<longrightarrow>
              s' = s)"
proof -
  let ?old = "fuelRecords s ! i"
  let ?F = "\<lambda>v. v\<lparr> totalDistance := jsadd (jssub (totalDistance v) (distance ?old)) (distance ?old),
                     totalFuelConsumed :=
                       jsadd (jssub (totalFuelConsumed v) (fuelAmount ?old)) (fuelAmount ?old) \<rparr>"
  have same: "recalculate (patch no_updates ?old) = ?old"
    using current by (simp add: patch_no_updates recalculate_current)
  from findIndex_Some [OF found] have records: "(fuelRecords s)[i := ?old] = fuelRecords s"
    by simp
  have result: "updateRecord recordId no_updates s =
      Inr (s\<lparr> vehicles := update_first (\<lambda>v. v_id v = vehicleId ?old) ?F (vehicles s) \<rparr>, ?old)"
    by (simp add: updateRecord_def found Let_def same records)
  have whole_tracker:
    "s\<lparr> vehicles := update_first (\<lambda>v. v_id v = vehicleId ?old) ?F (vehicles s) \<rparr> = s"
    if totals: "(\<forall>v. getVehicle (vehicleId (fuelRecords s ! i)) s = Some v \<longrightarrow>
        whole_part (distance (fuelRecords s ! i)) (totalDistance v) \<and>
        whole_part (fuelAmount (fuelRecords s ! i)) (totalFuelConsumed v))"
  proof -
    have "?F v = v" if "find (\<lambda>v. v_id v = vehicleId ?old) (vehicles s) = Some v" for v
      using totals that by (simp add: getVehicle_def take_put_back)
    then have "update_first (\<lambda>v. v_id v = vehicleId ?old) ?F (vehicles s) = vehicles s"
      by (rule update_first_unchanged)
    then show ?thesis
      by simp
  qed
  show ?thesis
    unfolding result using whole_tracker by simp
qed

theorem empty_patch_changes_nothing_witness:
  "findIndex (\<lambda>r. r_id r = ''1700000000000-abc123def'') (fuelRecords one_entry) = Some 0 \<and>
   consumption_current (fuelRecords one_entry ! 0) \<and>
   whole_part (Fin 150) (Fin 150) \<and> whole_part (Fin 10) (Fin 10) \<and>
   updateRecord ''1700000000000-abc123def'' no_updates one_entry
     = Inr (one_entry, fuelRecords one_entry ! 0) \<and>
   findIndex (\<lambda>r. r_id r = ''1700000000000-abc123def'') (fuelRecords zero_distance_entry)
     = Some 0 \<and>
   map distance (fuelRecords zero_distance_entry) = [Fin 0] \<and>
   map consumption (fuelRecords zero_distance_entry) = [Fin 15] \<and>
   consumption_current (fuelRecords zero_distance_entry ! 0) \<and>
   whole_part (Fin 0) (Fin 0) \<and>
   updateRecord ''1700000000000-abc123def'' no_updates zero_distance_entry
     = Inr (zero_distance_entry, fuelRecords zero_distance_entry ! 0) \<and>
   findIndex (\<lambda>r. r_id r = ''1700000000000-abc123def'') (fuelRecords thirds_entry) = Some 0 \<and>
   map consumption (fuelRecords thirds_entry) = [Fin (2345390243441541 / 70368744177664)] \<and>
   consumption_current (fuelRecords thirds_entry ! 0) \<and>
   whole_part (Fin 100) (Fin 100) \<and> whole_part (Fin 3) (Fin 3) \<and>
   updateRecord ''1700000000000-abc123def'' no_updates thirds_entry
     = Inr (thirds_entry, fuelRecords thirds_entry ! 0) \<and>
   findIndex (\<lambda>r. r_id r = ''1700000000001-xyz987uvw'') (fuelRecords three_entries) = Some 1 \<and>
   consumption_current (fuelRecords three_entries ! 1) \<and>
   \<not> whole_part two_tenths (Fin (6305039478318695 / 9007199254740992)) \<and>
   (case updateRecord ''1700000000001-xyz987uvw'' no_updates three_entries of
      Inl err \<Rightarrow> False
    | Inr (s', r) \<Rightarrow>
        r = fuelRecords three_entries ! 1 \<and> fuelRecords s' = fuelRecords three_entries)"
proof -
  have one: "consumption_current (fuelRecords one_entry ! 0)"
    by (simp add: one_entry_eq consumption_current_def rnd_numeral toFixed2_numeral)
  have zero: "consumption_current (fuelRecords zero_distance_entry ! 0)"
    by (simp add: zero_distance_entry_eq consumption_current_def)
  have third: "consumption_current (fuelRecords thirds_entry ! 0)"
    by (simp add: thirds_entry_eq consumption_current_def thirds)
  have three: "consumption_current (fuelRecords three_entries ! 1)"
    by (simp add: three_entries_eq consumption_current_def tenths_consumption)
  have parts: "whole_part (Fin 150) (Fin 150)" "whole_part (Fin 10) (Fin 10)"
    "whole_part (Fin 0) (Fin 0)" "whole_part (Fin 100) (Fin 100)" "whole_part (Fin 3) (Fin 3)"
    by (simp_all add: whole_part_def whole_def amount_def)
  have no_part: "\<not> whole_part two_tenths (Fin (6305039478318695 / 9007199254740992))"
    by (simp add: whole_part_def whole_def two_tenths_eq floor_rat_numeral)
  have first: "updateRecord ''1700000000000-abc123def'' no_updates one_entry
      = Inr (one_entry, fuelRecords one_entry ! 0)"
  proof -
    have found: "findIndex (\<lambda>r. r_id r = ''1700000000000-abc123def'') (fuelRecords one_entry) = Some 0"
      by (simp add: one_entry_eq)
    have totals: "\<forall>v. getVehicle (vehicleId (fuelRecords one_entry ! 0)) one_entry = Some v \<longrightarrow>
        whole_part (distance (fuelRecords one_entry ! 0)) (totalDistance v) \<and>
        whole_part (fuelAmount (fuelRecords one_entry ! 0)) (totalFuelConsumed v)"
      using parts by (simp add: one_entry_eq getVehicle_def)
    from empty_patch_changes_nothing [OF found one] totals show ?thesis
      by (auto split: sum.splits)
  qed
  have second: "updateRecord ''1700000000000-abc123def'' no_updates zero_distance_entry
      = Inr (zero_distance_entry, fuelRecords zero_distance_entry ! 0)"
  proof -
    have found: "findIndex (\<lambda>r. r_id r = ''1700000000000-abc123def'') (fuelRecords zero_distance_entry) = Some 0"
      by (simp add: zero_distance_entry_eq)
    have totals: "\<forall>v. getVehicle (vehicleId (fuelRecords zero_distance_entry ! 0)) zero_distance_entry = Some v \<longrightarrow>
        whole_part (distance (fuelRecords zero_distance_entry ! 0)) (totalDistance v) \<and>
        whole_part (fuelAmount (fuelRecords zero_distance_entry ! 0)) (totalFuelConsumed v)"
      using parts by (simp add: zero_distance_entry_eq getVehicle_def)
    from empty_patch_changes_nothing [OF found zero] totals show ?thesis
      by (auto split: sum.splits)
  qed
  have fourth: "updateRecord ''1700000000000-abc123def'' no_updates thirds_entry
      = Inr (thirds_entry, fuelRecords thirds_entry ! 0)"
  proof -
    have found: "findIndex (\<lambda>r. r_id r = ''1700000000000-abc123def'') (fuelRecords thirds_entry) = Some 0"
      by (simp add: thirds_entry_eq)
    have totals: "\<forall>v. getVehicle (vehicleId (fuelRecords thirds_entry ! 0)) thirds_entry = Some v \<longrightarrow>
        whole_part (distance (fuelRecords thirds_entry ! 0)) (totalDistance v) \<and>
        whole_part (fuelAmount (fuelRecords thirds_entry ! 0)) (totalFuelConsumed v)"
      using parts by (simp add: thirds_entry_eq getVehicle_def)
    from empty_patch_changes_nothing [OF found third] totals show ?thesis
      by (auto split: sum.splits)
  qed
  have found: "findIndex (\<lambda>r. r_id r = ''1700000000001-xyz987uvw'') (fuelRecords three_entries)
      = Some 1"
    by (simp add: three_entries_eq)
  note last = empty_patch_changes_nothing [OF found three]
  have shown: "findIndex (\<lambda>r. r_id r = ''1700000000000-abc123def'') (fuelRecords one_entry) = Some 0"
    "findIndex (\<lambda>r. r_id r = ''1700000000000-abc123def'') (fuelRecords zero_distance_entry)
       = Some 0"
    "findIndex (\<lambda>r. r_id r = ''1700000000000-abc123def'') (fuelRecords thirds_entry) = Some 0"
    "map distance (fuelRecords zero_distance_entry) = [Fin 0]"
    "map consumption (fuelRecords zero_distance_entry) = [Fin 15]"
    "map consumption (fuelRecords thirds_entry) = [Fin (2345390243441541 / 70368744177664)]"
    by (simp_all add: one_entry_eq zero_distance_entry_eq thirds_entry_eq)
  from last have fifth:
    "case updateRecord ''1700000000001-xyz987uvw'' no_updates three_entries of
       Inl err \<Rightarrow> False
     | Inr (s', r) \<Rightarrow>
         r = fuelRecords three_entries ! 1 \<and> fuelRecords s' = fuelRecords three_entries"
    by (auto split: sum.splits)
  show ?thesis
    by (intro conjI) (fact one zero third three parts no_part first second fourth found
        shown fifth)+
qed

text \<open>
  The claim as the specification words it holds for every existing record. A record
  with a consumption of 99 for 150 kilometres on 10 litres comes out of the empty update
  with 15. And after entries of 0.1, 0.2 and 0.4 kilometres the total distance is
  0.7000000000000001; the empty update of the second entry takes 0.2 out, which gives 0.5,
  and puts it back, which gives 0.7.
\<close>

theorem empty_patch_counterexample:
  "map consumption (fuelRecords stale_entry) = [Fin 99] \<and>
   map consumption
     (fuelRecords (perform (UpdateRecord ''1700000000000-abc123def'' no_updates) stale_entry))
     = [Fin 15] \<and>
   map totalDistance (vehicles three_entries)
     = [Fin (6305039478318695 / 9007199254740992)] \<and>
   map totalDistance
     (vehicles (perform (UpdateRecord ''1700000000001-xyz987uvw'' no_updates) three_entries))
     = [Fin (6305039478318694 / 9007199254740992)]"
proof (intro conjI)
  show "map consumption (fuelRecords stale_entry) = [Fin 99]"
    by (simp add: stale_entry_def one_entry_eq)
  show "map consumption
      (fuelRecords (perform (UpdateRecord ''1700000000000-abc123def'' no_updates) stale_entry))
      = [Fin 15]"
    by (simp add: stale_entry_def one_entry_eq perform_def updateRecord_def no_updates_def
        patch_def recalculate_def Let_def rnd_numeral toFixed2_numeral)
  show "map totalDistance (vehicles three_entries)
      = [Fin (6305039478318695 / 9007199254740992)]"
    by (simp add: three_entries_eq)
  show "map totalDistance
      (vehicles (perform (UpdateRecord ''1700000000001-xyz987uvw'' no_updates) three_entries))
      = [Fin (6305039478318694 / 9007199254740992)]"
    by (simp add: three_entries_eq perform_def updateRecord_def no_updates_def patch_def
        recalculate_def Let_def tenths_more tenths_consumption)
qed

section \<open>The round trip through a snapshot\<close>

lemma jsonify_vehicle_obj:
  "jsonify (vehicle_obj v) = vehicle_obj v \<longleftrightarrow>
     is_finite (totalDistance v) \<and> is_finite (totalFuelConsumed v)"
  by (simp add: vehicle_obj_def)

lemma jsonify_record_obj:
  "jsonify (record_obj r) = record_obj r \<longleftrightarrow>
     is_finite (fuelAmount r) \<and> is_finite (distance r) \<and> is_finite (consumption r)"
  by (simp add: record_obj_def)

text \<open>
  Claim C5, as the code has it. \<^verbatim>\<open>importData(exportData())\<close> installs, into whatever
  memory and whatever the storage does with the write that follows, the vehicles and
  records of the exported tracker, every field of every object in the same order, exactly
  when no numeric field of the tracker is NaN or infinite. The call raises its error only
  where the storage refuses the write, after the two collections are installed; where
  there is no \<^verbatim>\<open>localStorage\<close> or it takes the write, the call succeeds.
\<close>

theorem export_import_roundtrip:
  "(case importData (exportData now (memory_of s)) st m of
      (result, m') \<Rightarrow>
        (m' = memory_of s) = all_finite s \<and>
        (result = Inl ImportError) =
          (case st of NoStorage \<Rightarrow> False | Storage accepts \<Rightarrow> \<not> accepts m'))"
  by (cases m; cases st)
    (simp_all add: importData_def exportData_def JSON_stringify_def memory_of_def Let_def
      saveToStorage_def jsonify_vehicle_obj jsonify_record_obj all_finite_def list_all_iff)

theorem export_import_roundtrip_witness:
  "all_finite one_entry \<and>
   snd (importData (exportData (now_date env1) (memory_of one_entry)) NoStorage
          (memory_of one_entry)) = memory_of one_entry \<and>
   fst (importData (exportData (now_date env1) (memory_of one_entry)) NoStorage
          (memory_of one_entry)) \<noteq> Inl ImportError \<and>
   snd (importData (exportData (now_date env1) (memory_of one_entry)) accepting
          (memory_of empty_tracker)) = memory_of one_entry \<and>
   fst (importData (exportData (now_date env1) (memory_of one_entry)) accepting
          (memory_of empty_tracker)) \<noteq> Inl ImportError"
proof -
  have finite: "all_finite one_entry"
    by (simp add: all_finite_def one_entry_eq)
  with export_import_roundtrip
    [where now = "now_date env1" and s = one_entry and m = "memory_of one_entry"
       and st = NoStorage]
    export_import_roundtrip
    [where now = "now_date env1" and s = one_entry and m = "memory_of empty_tracker"
       and st = accepting]
  show ?thesis
    by (auto simp: accepting_def split: prod.splits)
qed

text \<open>
  The claim as the specification words it holds for every store state. After
  \<^verbatim>\<open>recordFuelConsumption("v1", 0, 150)\<close> the consumption of the record is infinite;
  \<^verbatim>\<open>JSON.stringify\<close> writes it as \<^verbatim>\<open>null\<close>, and the import, which succeeds, installs
  \<^verbatim>\<open>null\<close>.
\<close>

theorem export_import_counterexample:
  "mem_fuelRecords (memory_of zero_fuel_entry) =
     JArr [JObj [(''id'', JStr ''1700000000000-abc123def''), (''vehicleId'', JStr ''v1''),
                 (''fuelAmount'', JNum (Fin 0)), (''distance'', JNum (Fin 150)),
                 (''consumption'', JNum PInf),
                 (''date'', JStr ''2023-11-14T22:13:20.000Z''), (''notes'', JStr []),
                 (''createdAt'', JStr ''2023-11-14T22:13:20.000Z'')]] \<and>
   fst (importData (exportData (now_date env1) (memory_of zero_fuel_entry)) NoStorage
          (memory_of zero_fuel_entry)) \<noteq> Inl ImportError \<and>
   mem_fuelRecords
     (snd (importData (exportData (now_date env1) (memory_of zero_fuel_entry)) NoStorage
             (memory_of zero_fuel_entry))) =
     JArr [JObj [(''id'', JStr ''1700000000000-abc123def''), (''vehicleId'', JStr ''v1''),
                 (''fuelAmount'', JNum (Fin 0)), (''distance'', JNum (Fin 150)),
                 (''consumption'', JNull),
                 (''date'', JStr ''2023-11-14T22:13:20.000Z''), (''notes'', JStr []),
                 (''createdAt'', JStr ''2023-11-14T22:13:20.000Z'')]]"
  by (simp add: importData_def exportData_def JSON_stringify_def memory_of_def Let_def
      saveToStorage_def zero_fuel_entry_def recordFuelConsumption_def car_a_def
      addVehicle_def empty_tracker_def env1_def parseFloat_def record_obj_def
      vehicle_obj_def rnd_numeral)

section \<open>Importing a snapshot\<close>

lemma truthy_is_array: "is_array v \<Longrightarrow> truthy (Some v)"
  by (cases v) simp_all

lemma truthy_falsy:
  "truthy (Some v) \<longleftrightarrow> v \<notin> {JNull, JBool False, JNum (Fin 0), JNum NaN, JStr []}"
proof (cases v)
  case (JNum x)
  then show ?thesis by (cases x) simp_all
qed auto

text \<open>
  Claim C6, as the code has it. \<^verbatim>\<open>importData\<close> raises its error exactly when the input
  is not JSON, or is the JSON value \<^verbatim>\<open>null\<close>, or the storage refuses the write that
  follows the replacement. In the first two cases nothing is changed. Every other input,
  of the snapshot structure or not, is taken: the vehicles are replaced by the
  \<^verbatim>\<open>vehicles\<close> property unless it is missing or falsy (\<^verbatim>\<open>null\<close>, \<^verbatim>\<open>false\<close>, \<open>0\<close>, NaN
  or the empty string), and the records by the \<^verbatim>\<open>records\<close> property likewise; a
  collection is left untouched otherwise. That is the memory the call leaves also when
  the write is refused and the error is raised. For an input of the expected snapshot
  structure: each collection whose key is present is replaced, and each whose key is
  absent is left untouched.
\<close>

theorem importData_contract:
  "(JSON_parse t = None \<or> JSON_parse t = Some JNull \<longrightarrow>
      importData t st m = (Inl ImportError, m)) \<and>
   (\<forall>data. JSON_parse t = Some data \<longrightarrow> data \<noteq> JNull \<longrightarrow>
      (let m' = \<lparr> mem_vehicles =
                   (case property data ''vehicles'' of
                      None \<Rightarrow> mem_vehicles m
                    | Some v \<Rightarrow> if v \<in> {JNull, JBool False, JNum (Fin 0), JNum NaN, JStr []} then mem_vehicles m else v),
                 mem_fuelRecords =
                   (case property data ''records'' of
                      None \<Rightarrow> mem_fuelRecords m
                    | Some v \<Rightarrow> if v \<in> {JNull, JBool False, JNum (Fin 0), JNum NaN, JStr []} then mem_fuelRecords m else v) \<rparr>
       in importData t st m =
            (if (case st of NoStorage \<Rightarrow> True | Storage accepts \<Rightarrow> accepts m')
             then Inr data else Inl ImportError, m'))) \<and>
   (\<forall>data. JSON_parse t = Some data \<longrightarrow> spec_snapshot_structure data \<longrightarrow>
      snd (importData t st m) =
        \<lparr> mem_vehicles =
            (case property data ''vehicles'' of None \<Rightarrow> mem_vehicles m | Some v \<Rightarrow> v),
          mem_fuelRecords =
            (case property data ''records'' of None \<Rightarrow> mem_fuelRecords m | Some v \<Rightarrow> v) \<rparr>) \<and>
   (fst (importData t st m) = Inl ImportError \<longleftrightarrow>
      JSON_parse t = None \<or> JSON_parse t = Some JNull \<or>
      (case st of NoStorage \<Rightarrow> False
       | Storage accepts \<Rightarrow> \<not> accepts (snd (importData t st m))))"
proof (intro conjI allI impI)
  assume "JSON_parse t = None \<or> JSON_parse t = Some JNull"
  then show "importData t st m = (Inl ImportError, m)"
    by (auto simp: importData_def)
next
  fix data
  assume "JSON_parse t = Some data" "data \<noteq> JNull"
  then show "let m' = \<lparr> mem_vehicles =
                   (case property data ''vehicles'' of
                      None \<Rightarrow> mem_vehicles m
                    | Some v \<Rightarrow> if v \<in> {JNull, JBool False, JNum (Fin 0), JNum NaN, JStr []} then mem_vehicles m else v),
                 mem_fuelRecords =
                   (case property data ''records'' of
                      None \<Rightarrow> mem_fuelRecords m
                    | Some v \<Rightarrow> if v \<in> {JNull, JBool False, JNum (Fin 0), JNum NaN, JStr []} then mem_fuelRecords m else v) \<rparr>
       in importData t st m =
            (if (case st of NoStorage \<Rightarrow> True | Storage accepts \<Rightarrow> accepts m')
             then Inr data else Inl ImportError, m')"
    by (cases data; cases m)
      (simp_all add: importData_def Let_def saveToStorage_def truthy_falsy
        split: option.splits storage.splits)
next
  fix data
  assume p: "JSON_parse t = Some data" and shape: "spec_snapshot_structure data"
  then obtain kvs where kvs: "data = JObj kvs"
    by (cases data) simp_all
  from shape kvs show "snd (importData t st m) =
        \<lparr> mem_vehicles =
            (case property data ''vehicles'' of None \<Rightarrow> mem_vehicles m | Some v \<Rightarrow> v),
          mem_fuelRecords =
            (case property data ''records'' of None \<Rightarrow> mem_fuelRecords m | Some v \<Rightarrow> v) \<rparr>"
    by (cases m) (auto simp: importData_def p Let_def truthy_is_array split: option.splits)
next
  show "fst (importData t st m) = Inl ImportError \<longleftrightarrow>
      JSON_parse t = None \<or> JSON_parse t = Some JNull \<or>
      (case st of NoStorage \<Rightarrow> False
       | Storage accepts \<Rightarrow> \<not> accepts (snd (importData t st m)))"
    by (auto simp: importData_def Let_def saveToStorage_def
        split: option.splits jsval.splits storage.splits)
qed

theorem importData_contract_witness:
  "JSON_parse Malformed = None \<and>
   importData Malformed NoStorage (memory_of one_entry) = (Inl ImportError, memory_of one_entry) \<and>
   importData (Text JNull) accepting (memory_of one_entry)
     = (Inl ImportError, memory_of one_entry) \<and>
   spec_snapshot_structure (JObj [(''vehicles'', JArr [])]) \<and>
   importData (Text (JObj [(''vehicles'', JArr [])])) NoStorage (memory_of one_entry) =
     (Inr (JObj [(''vehicles'', JArr [])]),
      \<lparr> mem_vehicles = JArr [], mem_fuelRecords = mem_fuelRecords (memory_of one_entry) \<rparr>) \<and>
   importData (Text (JObj [(''records'', JArr [])])) accepting (memory_of one_entry) =
     (Inr (JObj [(''records'', JArr [])]),
      \<lparr> mem_vehicles = mem_vehicles (memory_of one_entry), mem_fuelRecords = JArr [] \<rparr>) \<and>
   importData (Text (JObj [(''vehicles'', JArr []), (''records'', JArr [])])) refusing
       (memory_of one_entry) =
     (Inl ImportError, \<lparr> mem_vehicles = JArr [], mem_fuelRecords = JArr [] \<rparr>) \<and>
   importData (Text (JObj [(''vehicles'', JNull), (''records'', JArr [])])) NoStorage
       (memory_of one_entry) =
     (Inr (JObj [(''vehicles'', JNull), (''records'', JArr [])]),
      \<lparr> mem_vehicles = mem_vehicles (memory_of one_entry), mem_fuelRecords = JArr [] \<rparr>) \<and>
   importData (Text (JObj [(''vehicles'', JNum (Fin 0)), (''records'', JStr [])])) NoStorage
       (memory_of one_entry) =
     (Inr (JObj [(''vehicles'', JNum (Fin 0)), (''records'', JStr [])]), memory_of one_entry) \<and>
   importData (Text (JObj [(''vehicles'', JBool False), (''records'', JBool True)])) NoStorage
       (memory_of one_entry) =
     (Inr (JObj [(''vehicles'', JBool False), (''records'', JBool True)]),
      \<lparr> mem_vehicles = mem_vehicles (memory_of one_entry), mem_fuelRecords = JBool True \<rparr>)"
  using importData_contract [of Malformed NoStorage "memory_of one_entry"]
    importData_contract [of "Text JNull" accepting "memory_of one_entry"]
    importData_contract
      [of "Text (JObj [(''vehicles'', JArr [])])" NoStorage "memory_of one_entry"]
    importData_contract
      [of "Text (JObj [(''records'', JArr [])])" accepting "memory_of one_entry"]
    importData_contract
      [of "Text (JObj [(''vehicles'', JArr []), (''records'', JArr [])])" refusing
        "memory_of one_entry"]
    importData_contract
      [of "Text (JObj [(''vehicles'', JNull), (''records'', JArr [])])" NoStorage
        "memory_of one_entry"]
    importData_contract
      [of "Text (JObj [(''vehicles'', JNum (Fin 0)), (''records'', JStr [])])" NoStorage
        "memory_of one_entry"]
    importData_contract
      [of "Text (JObj [(''vehicles'', JBool False), (''records'', JBool True)])" NoStorage
        "memory_of one_entry"]
  by (simp add: importData_def Let_def saveToStorage_def accepting_def refusing_def)

text \<open>
  The claim as the specification words it has the error raised exactly for the inputs that
  are not of the expected snapshot structure. The JSON texts \<^verbatim>\<open>42\<close> and
  \<^verbatim>\<open>{"vehicles": "abc"}\<close> are not of that structure; the first is accepted and changes
  nothing, and the second is accepted and installs the string as the vehicles. And the
  text \<^verbatim>\<open>{"vehicles": [], "records": []}\<close> is of that structure; where the storage
  refuses the write the error is raised for it, after both collections were replaced.
\<close>

theorem importData_counterexample:
  "\<not> spec_snapshot_structure (JNum (Fin 42)) \<and>
   importData (Text (JNum (Fin 42))) NoStorage (memory_of one_entry)
     = (Inr (JNum (Fin 42)), memory_of one_entry) \<and>
   \<not> spec_snapshot_structure (JObj [(''vehicles'', JStr ''abc'')]) \<and>
   importData (Text (JObj [(''vehicles'', JStr ''abc'')])) NoStorage (memory_of one_entry)
     = (Inr (JObj [(''vehicles'', JStr ''abc'')]),
        (memory_of one_entry)\<lparr> mem_vehicles := JStr ''abc'' \<rparr>) \<and>
   spec_snapshot_structure (JObj [(''vehicles'', JArr []), (''records'', JArr [])]) \<and>
   importData (Text (JObj [(''vehicles'', JArr []), (''records'', JArr [])])) refusing
       (memory_of one_entry)
     = (Inl ImportError, \<lparr> mem_vehicles = JArr [], mem_fuelRecords = JArr [] \<rparr>)"
  by (simp add: importData_def Let_def saveToStorage_def refusing_def)

end
